theory Spec2Isabelle
  imports Main
begin

section \<open>JavaScript strings, arrays and thrown errors\<close>

text \<open>
  Strings are lists of characters (code units below 256). \<open>js_split c s\<close> is
  \<^verbatim>\<open>s.split(c)\<close> for a one-character separator: it cuts at every occurrence of the
  separator and never returns the empty array (the empty string splits into one empty
  segment), so the first case of its \<open>case\<close> is never taken.
  \<open>js_join sep xs\<close> is \<^verbatim>\<open>xs.join(sep)\<close>.
\<close>

fun js_split :: "char \<Rightarrow> string \<Rightarrow> string list" where
  "js_split c [] = [[]]"
| "js_split c (x # xs) =
     (if x = c then [] # js_split c xs
      else (case js_split c xs of
              [] \<Rightarrow> [[x]]
            | seg # segs \<Rightarrow> (x # seg) # segs))"

fun js_join :: "string \<Rightarrow> string list \<Rightarrow> string" where
  "js_join sep [] = []"
| "js_join sep [x] = x"
| "js_join sep (x # y # ys) = x @ sep @ js_join sep (y # ys)"

text \<open>
  Reading an array at an index (also by destructuring \<^verbatim>\<open>[a, b] = xs\<close>) gives
  \<^verbatim>\<open>undefined\<close> out of range: \<open>None\<close>. \<open>js_template\<close> is the text a template
  literal \<^verbatim>\<open>`${v}`\<close> prints for a string or \<^verbatim>\<open>undefined\<close>.
\<close>

definition js_index :: "'a list \<Rightarrow> nat \<Rightarrow> 'a option" where
  "js_index xs i = (if i < length xs then Some (xs ! i) else None)"

definition js_template :: "string option \<Rightarrow> string" where
  "js_template v = (case v of None \<Rightarrow> ''undefined'' | Some s \<Rightarrow> s)"

text \<open>
  \<open>js_truthy\<close> is the truth value of an optional string in a condition:
  \<^verbatim>\<open>undefined\<close> and the empty string are falsy.
\<close>

definition js_truthy :: "string option \<Rightarrow> bool" where
  "js_truthy v = (case v of None \<Rightarrow> False | Some s \<Rightarrow> s \<noteq> [])"

text \<open>
  A thrown value is an error object with its message: one of the built-in classes, or the
  error of the HTTP client, which also carries the body of the upstream response when there
  was one. \<open>error_message e\<close> is \<^verbatim>\<open>e.message\<close> and \<open>response_data e\<close> is
  \<^verbatim>\<open>e.response?.data\<close>.
\<close>

datatype js_error =
    Error string
  | TypeError string
  | SyntaxError string
  | AxiosError string "string option"

fun error_message :: "js_error \<Rightarrow> string" where
  "error_message (Error m) = m"
| "error_message (TypeError m) = m"
| "error_message (SyntaxError m) = m"
| "error_message (AxiosError m d) = m"

fun response_data :: "js_error \<Rightarrow> string option" where
  "response_data (AxiosError m d) = d"
| "response_data e = None"

section \<open>Asset identifiers (parser.ts)\<close>

datatype asset_type = Native | Erc20 | Erc721 | Erc1155 | Bitcoin

text \<open>
  \<open>networkId\<close> is declared a string. The CAIP parser reads it from an object literal
  by \<^verbatim>\<open>chainIdMap[chainReference]\<close>, and every object literal inherits the members of
  \<^verbatim>\<open>Object.prototype\<close>: at a chain reference such as \<^verbatim>\<open>constructor\<close> the lookup
  returns that inherited member (a function or object, truthy, not a string), and it is
  what the parser stores. \<open>InheritedMember k\<close> is that value.
\<close>

datatype network_id = NetworkId string | InheritedMember string

record AssetInfo =
  assetId :: string
  networkId :: network_id
  contractAddress :: "string option"
  tokenId :: "string option"
  atype :: asset_type

definition objectPrototypeKeys :: "string list" where
  "objectPrototypeKeys =
     [''constructor'', ''__defineGetter__'', ''__defineSetter__'', ''hasOwnProperty'',
      ''__lookupGetter__'', ''__lookupSetter__'', ''isPrototypeOf'',
      ''propertyIsEnumerable'', ''toString'', ''valueOf'', ''__proto__'',
      ''toLocaleString'']"

definition chainIdMap :: "(string \<times> string) list" where
  "chainIdMap =
     [(''1'', ''ethereum''), (''137'', ''polygon''), (''42161'', ''arbitrum''),
      (''10'', ''optimism''), (''8453'', ''base'')]"

text \<open>
  \<^verbatim>\<open>chainIdMap[chainReference] || `eip155:${chainReference}`\<close>: an own key gives its
  network name, an inherited key the inherited member, any other key (also
  \<^verbatim>\<open>undefined\<close>, which is looked up as the key \<^verbatim>\<open>"undefined"\<close>) the fallback text.
\<close>

definition eip155_networkId :: "string option \<Rightarrow> network_id" where
  "eip155_networkId chainReference =
     (let key = js_template chainReference in
      case map_of chainIdMap key of
        Some name \<Rightarrow> NetworkId name
      | None \<Rightarrow>
          if key \<in> set objectPrototypeKeys then InheritedMember key
          else NetworkId (''eip155:'' @ js_template chainReference))"

text \<open>
  The contract address and token id of an \<^verbatim>\<open>erc721\<close> or \<^verbatim>\<open>erc1155\<close> asset
  reference: split on the colon; exactly two parts are address and token id, anything
  else is the address alone.
\<close>

definition nft_reference :: "string \<Rightarrow> string option \<times> string option" where
  "nft_reference assetReference =
     (let parts = js_split CHR '':'' assetReference in
      if length parts = 2 then (Some (parts ! 0), Some (parts ! 1))
      else (Some assetReference, None))"

definition parseCAIPAssetId :: "string \<Rightarrow> js_error + AssetInfo" where
  "parseCAIPAssetId aid =
     (let top = js_split CHR ''/'' aid;
          chainPart = js_index top 0;
          assetPart = js_index top 1
      in case chainPart of
           None \<Rightarrow> Inl (TypeError ''chainPart is undefined'')
         | Some chainPart \<Rightarrow>
      (let chainParts = js_split CHR '':'' chainPart;
           chainNamespace = js_index chainParts 0;
           chainReference = js_index chainParts 1
       in case assetPart of
            None \<Rightarrow> Inl (TypeError ''assetPart is undefined'')
          | Some assetPart \<Rightarrow>
      (let assetParts = js_split CHR '':'' assetPart;
           assetNamespace = js_index assetParts 0;
           assetReference = js_join '':'' (drop 1 assetParts)
       in case (if chainNamespace = Some ''bip122'' then Inr (NetworkId ''bitcoin'')
                else if chainNamespace = Some ''eip155''
                  then Inr (eip155_networkId chainReference)
                else Inl (Error (''Unsupported chain namespace: '' @
                                 js_template chainNamespace))) of
            Inl e \<Rightarrow> Inl e
          | Inr nid \<Rightarrow>
              if assetNamespace = Some ''slip44'' then
                Inr \<lparr>assetId = aid, networkId = nid, contractAddress = None,
                     tokenId = None,
                     atype = (if nid = NetworkId ''bitcoin'' then Bitcoin else Native)\<rparr>
              else if assetNamespace = Some ''erc20'' then
                Inr \<lparr>assetId = aid, networkId = nid,
                     contractAddress = Some assetReference, tokenId = None,
                     atype = Erc20\<rparr>
              else if assetNamespace = Some ''erc721'' then
                Inr \<lparr>assetId = aid, networkId = nid,
                     contractAddress = fst (nft_reference assetReference),
                     tokenId = snd (nft_reference assetReference), atype = Erc721\<rparr>
              else if assetNamespace = Some ''erc1155'' then
                Inr \<lparr>assetId = aid, networkId = nid,
                     contractAddress = fst (nft_reference assetReference),
                     tokenId = snd (nft_reference assetReference), atype = Erc1155\<rparr>
              else Inl (Error (''Unsupported asset namespace: '' @
                               js_template assetNamespace)))))"

definition parseAssetId :: "string \<Rightarrow> js_error + AssetInfo" where
  "parseAssetId aid =
     (if CHR ''/'' \<in> set aid then parseCAIPAssetId aid
      else
        (let parts = js_split CHR '':'' aid in
         if aid = ''bitcoin'' then
           Inr \<lparr>assetId = aid, networkId = NetworkId ''bitcoin'', contractAddress = None,
                tokenId = None, atype = Bitcoin\<rparr>
         else if length parts = 1 then
           Inr \<lparr>assetId = aid, networkId = NetworkId (parts ! 0), contractAddress = None,
                tokenId = None, atype = Native\<rparr>
         else if length parts = 2 then
           Inr \<lparr>assetId = aid, networkId = NetworkId (parts ! 0),
                contractAddress = Some (parts ! 1), tokenId = None, atype = Erc20\<rparr>
         else if length parts = 3 then
           Inr \<lparr>assetId = aid, networkId = NetworkId (parts ! 0),
                contractAddress = Some (parts ! 1), tokenId = Some (parts ! 2),
                atype = Erc721\<rparr>
         else Inl (Error (''Invalid assetId format: '' @ aid))))"

definition buildAssetId :: "string \<Rightarrow> string option \<Rightarrow> string option \<Rightarrow> string" where
  "buildAssetId nid contract token =
     (if nid = ''bitcoin'' then ''bitcoin''
      else if \<not> js_truthy contract then nid
      else if \<not> js_truthy token then nid @ '':'' @ js_template contract
      else nid @ '':'' @ js_template contract @ '':'' @ js_template token)"

text \<open>
  The chain namespace and the asset namespace the CAIP parser reads from an identifier:
  the first colon-separated segment of the text before, and of the text after, the first
  slash.
\<close>

definition caip_chainNamespace :: "string \<Rightarrow> string option" where
  "caip_chainNamespace aid =
     (case js_index (js_split CHR ''/'' aid) 0 of
        None \<Rightarrow> None
      | Some chainPart \<Rightarrow> js_index (js_split CHR '':'' chainPart) 0)"

definition caip_assetNamespace :: "string \<Rightarrow> string option" where
  "caip_assetNamespace aid =
     (case js_index (js_split CHR ''/'' aid) 1 of
        None \<Rightarrow> None
      | Some assetPart \<Rightarrow> js_index (js_split CHR '':'' assetPart) 0)"

section \<open>Arbitrary-precision integers and unit conversion (parser.ts)\<close>

text \<open>
  \<^verbatim>\<open>BigInt(s)\<close> reads a string as an integer: white space around it is dropped, the
  empty text is zero, a decimal numeral may carry a sign, a numeral with prefix
  \<^verbatim>\<open>0x\<close>, \<^verbatim>\<open>0o\<close> or \<^verbatim>\<open>0b\<close> may not, and anything else is a SyntaxError.
  Characters are code units below 256, of which seven are white space.
\<close>

definition is_white :: "char \<Rightarrow> bool" where
  "is_white c \<longleftrightarrow> (of_char c :: nat) \<in> {9, 10, 11, 12, 13, 32, 160}"

definition js_trim :: "string \<Rightarrow> string" where
  "js_trim s = rev (dropWhile is_white (rev (dropWhile is_white s)))"

definition digit_val :: "char \<Rightarrow> nat option" where
  "digit_val c =
     (let n = (of_char c :: nat) in
      if 48 \<le> n \<and> n \<le> 57 then Some (n - 48)
      else if 97 \<le> n \<and> n \<le> 102 then Some (n - 87)
      else if 65 \<le> n \<and> n \<le> 70 then Some (n - 55)
      else None)"

fun digits_value :: "nat \<Rightarrow> nat \<Rightarrow> string \<Rightarrow> nat option" where
  "digits_value base acc [] = Some acc"
| "digits_value base acc (c # cs) =
     (case digit_val c of
        None \<Rightarrow> None
      | Some d \<Rightarrow> if d < base then digits_value base (acc * base + d) cs else None)"

definition parse_digits :: "nat \<Rightarrow> string \<Rightarrow> nat option" where
  "parse_digits base s = (if s = [] then None else digits_value base 0 s)"

definition signed_decimal :: "string \<Rightarrow> int option" where
  "signed_decimal t =
     (case t of
        [] \<Rightarrow> None
      | c # ds \<Rightarrow>
          if c = CHR ''+'' then map_option int (parse_digits 10 ds)
          else if c = CHR ''-'' then map_option (\<lambda>n. - int n) (parse_digits 10 ds)
          else map_option int (parse_digits 10 t))"

definition StringToBigInt :: "string \<Rightarrow> int option" where
  "StringToBigInt s =
     (let t = js_trim s in
      if t = [] then Some 0
      else
        (case t of
           c0 # c1 # ds \<Rightarrow>
             if c0 = CHR ''0'' \<and> (c1 = CHR ''x'' \<or> c1 = CHR ''X'')
               then map_option int (parse_digits 16 ds)
             else if c0 = CHR ''0'' \<and> (c1 = CHR ''o'' \<or> c1 = CHR ''O'')
               then map_option int (parse_digits 8 ds)
             else if c0 = CHR ''0'' \<and> (c1 = CHR ''b'' \<or> c1 = CHR ''B'')
               then map_option int (parse_digits 2 ds)
             else signed_decimal t
         | _ \<Rightarrow> signed_decimal t))"

definition BigInt :: "string \<Rightarrow> js_error + int" where
  "BigInt s =
     (case StringToBigInt s of
        None \<Rightarrow> Inl (SyntaxError (''Cannot convert '' @ s @ '' to a BigInt''))
      | Some n \<Rightarrow> Inr n)"

text \<open>
  Division of BigInts truncates towards zero and the remainder takes the sign of the
  dividend. \<open>toString\<close> prints a BigInt in decimal, with a minus sign when negative.
\<close>

definition bigint_div :: "int \<Rightarrow> int \<Rightarrow> int" where
  "bigint_div a b = sgn a * sgn b * (\<bar>a\<bar> div \<bar>b\<bar>)"

definition bigint_rem :: "int \<Rightarrow> int \<Rightarrow> int" where
  "bigint_rem a b = sgn a * (\<bar>a\<bar> mod \<bar>b\<bar>)"

definition digit_char :: "nat \<Rightarrow> char" where
  "digit_char d = char_of (48 + d)"

fun digits :: "nat \<Rightarrow> string" where
  "digits n = (if n < 10 then [digit_char n] else digits (n div 10) @ [digit_char (n mod 10)])"

declare digits.simps [simp del]

definition toString :: "int \<Rightarrow> string" where
  "toString i = (if i < 0 then CHR ''-'' # digits (nat (- i)) else digits (nat i))"

text \<open>
  \<^verbatim>\<open>s.padStart(n, '0')\<close>, \<^verbatim>\<open>s.padEnd(n, '0')\<close> and
  \<^verbatim>\<open>s.replace(/0+$/, '')\<close>, which removes the zeros at the end of the text.
\<close>

definition padStart :: "nat \<Rightarrow> char \<Rightarrow> string \<Rightarrow> string" where
  "padStart n c s = replicate (n - length s) c @ s"

definition padEnd :: "nat \<Rightarrow> char \<Rightarrow> string \<Rightarrow> string" where
  "padEnd n c s = s @ replicate (n - length s) c"

definition strip_trailing_zeros :: "string \<Rightarrow> string" where
  "strip_trailing_zeros s = rev (dropWhile (\<lambda>c. c = CHR ''0'') (rev s))"

text \<open>
  \<^verbatim>\<open>BigInt(10 ** 18)\<close> and \<^verbatim>\<open>BigInt(10 ** 8)\<close>: both powers are exact as doubles, so
  the divisors are the integers \<open>10 ^ 18\<close> and \<open>10 ^ 8\<close>.
\<close>

definition weiToEther :: "string \<Rightarrow> js_error + string" where
  "weiToEther wei =
     (case BigInt wei of
        Inl e \<Rightarrow> Inl e
      | Inr weiBigInt \<Rightarrow>
          (let etherBigInt = bigint_div weiBigInt (10 ^ 18);
               remainder = bigint_rem weiBigInt (10 ^ 18)
           in if remainder = 0 then Inr (toString etherBigInt)
              else
                (let remainderStr = padStart 18 CHR ''0'' (toString remainder);
                     decimalPart = strip_trailing_zeros remainderStr
                 in if decimalPart = [] then Inr (toString etherBigInt)
                    else Inr (toString etherBigInt @ ''.'' @ decimalPart))))"

text \<open>
  \<^verbatim>\<open>const [integerPart, decimalPart = ''] = ether.split('.')\<close>: the first two segments,
  the second defaulting to the empty text. A split has a first segment, so the case of an
  undefined \<open>integerPart\<close> is never taken.
\<close>

definition etherToWei :: "string \<Rightarrow> js_error + string" where
  "etherToWei ether =
     (let parts = js_split CHR ''.'' ether;
          integerPart = js_index parts 0;
          decimalPart = (case js_index parts 1 of None \<Rightarrow> [] | Some d \<Rightarrow> d);
          paddedDecimal = take 18 (padEnd 18 CHR ''0'' decimalPart)
      in case integerPart of
           None \<Rightarrow> Inl (TypeError ''Cannot convert undefined to a BigInt'')
         | Some integerText \<Rightarrow>
             (case BigInt integerText of
                Inl e \<Rightarrow> Inl e
              | Inr i \<Rightarrow>
                  (case BigInt paddedDecimal of
                     Inl e \<Rightarrow> Inl e
                   | Inr d \<Rightarrow> Inr (toString (i * 10 ^ 18 + d)))))"

definition satoshiToBitcoin :: "string \<Rightarrow> js_error + string" where
  "satoshiToBitcoin satoshi =
     (case BigInt satoshi of
        Inl e \<Rightarrow> Inl e
      | Inr satoshiBigInt \<Rightarrow>
          (let bitcoinBigInt = bigint_div satoshiBigInt (10 ^ 8);
               remainder = bigint_rem satoshiBigInt (10 ^ 8)
           in if remainder = 0 then Inr (toString bitcoinBigInt)
              else
                (let remainderStr = padStart 8 CHR ''0'' (toString remainder);
                     decimalPart = strip_trailing_zeros remainderStr
                 in if decimalPart = [] then Inr (toString bitcoinBigInt)
                    else Inr (toString bitcoinBigInt @ ''.'' @ decimalPart))))"

definition bitcoinToSatoshi :: "string \<Rightarrow> js_error + string" where
  "bitcoinToSatoshi bitcoin_amount =
     (let parts = js_split CHR ''.'' bitcoin_amount;
          integerPart = js_index parts 0;
          decimalPart = (case js_index parts 1 of None \<Rightarrow> [] | Some d \<Rightarrow> d);
          paddedDecimal = take 8 (padEnd 8 CHR ''0'' decimalPart)
      in case integerPart of
           None \<Rightarrow> Inl (TypeError ''Cannot convert undefined to a BigInt'')
         | Some integerText \<Rightarrow>
             (case BigInt integerText of
                Inl e \<Rightarrow> Inl e
              | Inr i \<Rightarrow>
                  (case BigInt paddedDecimal of
                     Inl e \<Rightarrow> Inl e
                   | Inr d \<Rightarrow> Inr (toString (i * 10 ^ 8 + d)))))"

text \<open>
  The same two conversions at an arbitrary decimal count \<open>d\<close>; the four functions above
  are their instances at 18 and 8 (lemmas \<open>weiToEther_toHumanUnit\<close> to
  \<open>bitcoinToSatoshi_toBaseUnit\<close>).
\<close>

definition toHumanUnit :: "nat \<Rightarrow> string \<Rightarrow> js_error + string" where
  "toHumanUnit d base =
     (case BigInt base of
        Inl e \<Rightarrow> Inl e
      | Inr b \<Rightarrow>
          (let integerPart = bigint_div b (10 ^ d);
               remainder = bigint_rem b (10 ^ d)
           in if remainder = 0 then Inr (toString integerPart)
              else
                (let decimalPart =
                       strip_trailing_zeros (padStart d CHR ''0'' (toString remainder))
                 in if decimalPart = [] then Inr (toString integerPart)
                    else Inr (toString integerPart @ ''.'' @ decimalPart))))"

definition toBaseUnit :: "nat \<Rightarrow> string \<Rightarrow> js_error + string" where
  "toBaseUnit d human =
     (let parts = js_split CHR ''.'' human;
          integerPart = js_index parts 0;
          decimalPart = (case js_index parts 1 of None \<Rightarrow> [] | Some f \<Rightarrow> f);
          paddedDecimal = take d (padEnd d CHR ''0'' decimalPart)
      in case integerPart of
           None \<Rightarrow> Inl (TypeError ''Cannot convert undefined to a BigInt'')
         | Some integerText \<Rightarrow>
             (case BigInt integerText of
                Inl e \<Rightarrow> Inl e
              | Inr i \<Rightarrow>
                  (case BigInt paddedDecimal of
                     Inl e \<Rightarrow> Inl e
                   | Inr f \<Rightarrow> Inr (toString (i * 10 ^ d + f)))))"

text \<open>A decimal digit character.\<close>

definition is_digit :: "char \<Rightarrow> bool" where
  "is_digit c \<longleftrightarrow> 48 \<le> (of_char c :: nat) \<and> (of_char c :: nat) \<le> 57"

section \<open>The response envelope (types.ts)\<close>

text \<open>
  \<open>details\<close> of an error is declared \<^verbatim>\<open>any\<close>: the service stores \<^verbatim>\<open>null\<close> or the
  caught error, a provider stores the upstream response body (\<open>DetailsData None\<close> is
  \<^verbatim>\<open>undefined\<close>). \<^verbatim>\<open>Date.now()\<close> is the argument \<open>now\<close> of the operations.
\<close>

datatype details = DetailsNull | DetailsError js_error | DetailsData "string option"

record ApiError =
  code :: string
  message :: string
  details :: details

record 'a ApiResponse =
  success :: bool
  data :: "'a option"
  error :: "ApiError option"
  timestamp :: nat

record BalanceResponse =
  balance :: string
  balanceFormatted :: string
  balance_assetId :: string
  balance_networkId :: string
  balance_timestamp :: nat

datatype tx_status = Tx_success | Tx_failed | Tx_pending

datatype tx_type = Send | Receive

text \<open>
  A history entry. \<open>tx_timestamp\<close> and \<open>blockNumber\<close> are numbers computed from fields
  that an unconfirmed transaction does not have: \<open>None\<close> is \<^verbatim>\<open>NaN\<close>, respectively
  \<^verbatim>\<open>undefined\<close>.
\<close>

record Transaction =
  hash :: string
  tx_from :: string
  tx_to :: string
  tx_value :: string
  valueFormatted :: string
  tx_timestamp :: "nat option"
  blockNumber :: "nat option"
  gasUsed :: string
  gasPrice :: string
  tx_status :: tx_status
  tx_type :: tx_type

record HistoryResponse =
  history_assetId :: string
  history_networkId :: string
  transactions :: "Transaction list"
  history_total :: nat
  page :: int
  limit :: int

datatype metadata_type = Metadata_native | Metadata_erc20

record TokenMetadataResponse =
  name :: string
  symbol :: string
  decimals :: nat
  totalSupply :: "string option"
  metadata_contractAddress :: "string option"
  metadata_assetId :: string
  metadata_networkId :: string
  metadata_type :: metadata_type
  logo :: "string option"

text \<open>The numbers of a price are doubles; their type is the parameter \<open>'num\<close>.\<close>

record 'num PriceResponse =
  price :: 'num
  priceChange24h :: 'num
  priceChangePercentage24h :: 'num
  marketCap :: 'num
  volume24h :: 'num
  price_assetId :: string
  currency :: string
  price_timestamp :: nat

text \<open>
  \<^verbatim>\<open>error.message || fallback\<close>: the message, or the fallback when the message is empty.
\<close>

definition message_or :: "js_error \<Rightarrow> string \<Rightarrow> string" where
  "message_or e fallback = (if error_message e = [] then fallback else error_message e)"

section \<open>The Bitcoin provider (bitcoin.ts)\<close>

text \<open>
  The transactions the ledger API returns for an address. An output has an address
  (absent for a script without one) and a value in satoshi; an input refers to the output
  it spends (\<open>prevout\<close>, absent for a coinbase input). Values are numbers, modelled by
  natural numbers: satoshi amounts and their sums are integers below \<open>2 ^ 53\<close>, where
  addition of doubles is exact and \<^verbatim>\<open>toString()\<close> prints the decimal digits.
\<close>

record TxOut =
  scriptpubkey_address :: "string option"
  txo_value :: nat

record TxIn =
  prevout :: "TxOut option"

record TxStatus =
  confirmed :: bool
  block_height :: "nat option"
  block_time :: "nat option"

record BitcoinTx =
  txid :: string
  vin :: "TxIn list"
  vout :: "TxOut list"
  status :: TxStatus
  fee :: "nat option"

definition MAX_SAFE_INTEGER :: nat where
  "MAX_SAFE_INTEGER = 2 ^ 53 - 1"

definition number_toString :: "nat \<Rightarrow> string" where
  "number_toString n = digits n"

text \<open>
  \<^verbatim>\<open>tx.vin[0]?.prevout?.scriptpubkey_address || ''\<close> and
  \<^verbatim>\<open>tx.vout[0]?.scriptpubkey_address || ''\<close>.
\<close>

definition first_input_address :: "BitcoinTx \<Rightarrow> string" where
  "first_input_address tx =
     (case js_index (vin tx) 0 of
        None \<Rightarrow> []
      | Some input \<Rightarrow>
          (case prevout input of
             None \<Rightarrow> []
           | Some p \<Rightarrow> (case scriptpubkey_address p of None \<Rightarrow> [] | Some a \<Rightarrow> a)))"

definition first_output_address :: "BitcoinTx \<Rightarrow> string" where
  "first_output_address tx =
     (case js_index (vout tx) 0 of
        None \<Rightarrow> []
      | Some output \<Rightarrow> (case scriptpubkey_address output of None \<Rightarrow> [] | Some a \<Rightarrow> a))"

text \<open>
  Whether the address owns an output that the transaction spends, and whether it owns
  one of the transaction's outputs.
\<close>

definition spends_from :: "string \<Rightarrow> BitcoinTx \<Rightarrow> bool" where
  "spends_from address tx \<longleftrightarrow>
     (\<exists>input\<in>set (vin tx). \<exists>p\<in>set_option (prevout input).
        scriptpubkey_address p = Some address)"

definition pays_to :: "string \<Rightarrow> BitcoinTx \<Rightarrow> bool" where
  "pays_to address tx \<longleftrightarrow>
     (\<exists>output\<in>set (vout tx). scriptpubkey_address output = Some address)"

text \<open>
  The function mapped over the transactions in \<open>getHistory\<close>. In the branch of
  \<open>isReceive\<close> the output found is defined, so its second case is never taken.
\<close>

definition history_entry :: "string \<Rightarrow> BitcoinTx \<Rightarrow> js_error + Transaction" where
  "history_entry address tx =
     (let relevantInput =
            find (\<lambda>input. case prevout input of
                             None \<Rightarrow> False
                           | Some p \<Rightarrow> scriptpubkey_address p = Some address) (vin tx);
          relevantOutput =
            find (\<lambda>output. scriptpubkey_address output = Some address) (vout tx);
          isSend = (relevantInput \<noteq> None \<and> relevantOutput = None);
          isReceive = (relevantInput = None \<and> relevantOutput \<noteq> None);
          (val, ty) =
            (if isSend then
               (number_toString (foldl (\<lambda>sum output. sum + txo_value output) 0 (vout tx)),
                Send)
             else if isReceive then
               (case relevantOutput of
                  Some output \<Rightarrow> (number_toString (txo_value output), Receive)
                | None \<Rightarrow> (''0'', Send))
             else (''0'', Send))
      in case satoshiToBitcoin val of
           Inl e \<Rightarrow> Inl e
         | Inr formatted \<Rightarrow>
             Inr \<lparr>hash = txid tx,
                  tx_from = (if isSend then address else first_input_address tx),
                  tx_to = (if isReceive then address else first_output_address tx),
                  tx_value = val,
                  valueFormatted = formatted,
                  tx_timestamp = map_option (\<lambda>t. t * 1000) (block_time (status tx)),
                  blockNumber = block_height (status tx),
                  gasUsed = (case fee tx of None \<Rightarrow> ''0'' | Some f \<Rightarrow> number_toString f),
                  gasPrice = ''0'',
                  tx_status = (if confirmed (status tx) then Tx_success else Tx_pending),
                  tx_type = ty\<rparr>)"

text \<open>\<^verbatim>\<open>xs.map(f)\<close> for a function that may throw: the first error ends the traversal.\<close>

fun map_throwing :: "('a \<Rightarrow> js_error + 'b) \<Rightarrow> 'a list \<Rightarrow> js_error + 'b list" where
  "map_throwing f [] = Inr []"
| "map_throwing f (x # xs) =
     (case f x of
        Inl e \<Rightarrow> Inl e
      | Inr y \<Rightarrow> (case map_throwing f xs of Inl e \<Rightarrow> Inl e | Inr ys \<Rightarrow> Inr (y # ys)))"

text \<open>
  \<open>BitcoinProvider_getHistory\<close>: \<open>client_get\<close> is the HTTP request
  \<^verbatim>\<open>GET /address/<address>/txs\<close> with its \<open>offset\<close> and \<open>limit\<close> parameters; it
  returns the transactions or throws.
\<close>

definition BitcoinProvider_getHistory ::
  "(string \<Rightarrow> int \<Rightarrow> int \<Rightarrow> js_error + BitcoinTx list) \<Rightarrow> nat \<Rightarrow>
   string \<Rightarrow> int \<Rightarrow> int \<Rightarrow> HistoryResponse ApiResponse" where
  "BitcoinProvider_getHistory client_get now address pg lim =
     (let offset = (pg - 1) * lim in
      case (case client_get address offset lim of
              Inl e \<Rightarrow> Inl e
            | Inr response_txs \<Rightarrow> map_throwing (history_entry address) response_txs) of
        Inr txs \<Rightarrow>
          \<lparr>success = True,
           data = Some \<lparr>history_assetId = ''bitcoin'', history_networkId = ''bitcoin'',
                        transactions = txs, history_total = length txs,
                        page = pg, limit = lim\<rparr>,
           error = None, timestamp = now\<rparr>
      | Inl e \<Rightarrow>
          \<lparr>success = False, data = None,
           error = Some \<lparr>code = ''BITCOIN_HISTORY_FETCH_ERROR'',
                         message = message_or e ''Failed to fetch Bitcoin transaction history'',
                         details = DetailsData (response_data e)\<rparr>,
           timestamp = now\<rparr>)"

text \<open>
  Three transactions seen from address \<open>A\<close>: one that spends an output of \<open>A\<close> and
  pays others, one that pays \<open>A\<close>, and one that spends an output of \<open>A\<close> and pays
  \<open>A\<close> change.
\<close>

definition example_history :: "BitcoinTx list" where
  "example_history =
     [\<lparr>txid = ''t1'',
       vin = [\<lparr>prevout = Some \<lparr>scriptpubkey_address = Some ''A'', txo_value = 10\<rparr>\<rparr>],
       vout = [\<lparr>scriptpubkey_address = Some ''B'', txo_value = 7\<rparr>,
               \<lparr>scriptpubkey_address = Some ''C'', txo_value = 2\<rparr>],
       status = \<lparr>confirmed = True, block_height = Some 5, block_time = Some 1700\<rparr>,
       fee = Some 1\<rparr>,
      \<lparr>txid = ''t2'',
       vin = [\<lparr>prevout = Some \<lparr>scriptpubkey_address = Some ''B'', txo_value = 7\<rparr>\<rparr>],
       vout = [\<lparr>scriptpubkey_address = Some ''C'', txo_value = 4\<rparr>,
               \<lparr>scriptpubkey_address = Some ''A'', txo_value = 2\<rparr>],
       status = \<lparr>confirmed = True, block_height = Some 6, block_time = Some 1800\<rparr>,
       fee = Some 1\<rparr>,
      \<lparr>txid = ''t3'',
       vin = [\<lparr>prevout = Some \<lparr>scriptpubkey_address = Some ''A'', txo_value = 2\<rparr>\<rparr>],
       vout = [\<lparr>scriptpubkey_address = Some ''D'', txo_value = 1\<rparr>,
               \<lparr>scriptpubkey_address = Some ''A'', txo_value = 1\<rparr>],
       status = \<lparr>confirmed = False, block_height = None, block_time = None\<rparr>,
       fee = None\<rparr>]"

section \<open>The blockchain service (blockchain.service.ts)\<close>

text \<open>
  The service calls three providers. A provider method is a parameter: a function from
  its arguments to what awaiting the call gives, a returned envelope or a thrown error.
  The responses that the service only passes on have type parameters: \<open>'gas\<close>,
  \<open>'ph\<close> (price history), \<open>'own\<close> (NFT owners), \<open>'nfts\<close>, \<open>'nftm\<close> (NFT metadata).
\<close>

datatype gas_type = Legacy | Eip1559

record ('gas, 'ph, 'own, 'nfts, 'nftm, 'num) providers =
  bitcoin_getBalance :: "string \<Rightarrow> js_error + BalanceResponse ApiResponse"
  bitcoin_getHistory :: "string \<Rightarrow> int \<Rightarrow> int \<Rightarrow> js_error + HistoryResponse ApiResponse"
  alchemy_getBalance :: "string \<Rightarrow> string \<Rightarrow> js_error + BalanceResponse ApiResponse"
  alchemy_getGas :: "string \<Rightarrow> gas_type \<Rightarrow> js_error + 'gas ApiResponse"
  alchemy_getHistory ::
    "string \<Rightarrow> string \<Rightarrow> int \<Rightarrow> int \<Rightarrow> js_error + HistoryResponse ApiResponse"
  alchemy_getNftOwners ::
    "string \<Rightarrow> string \<Rightarrow> string option \<Rightarrow> js_error + 'own ApiResponse"
  alchemy_getNftsForOwner ::
    "string \<Rightarrow> string \<Rightarrow> string option \<Rightarrow> js_error + 'nfts ApiResponse"
  alchemy_getTokenMetadata :: "string \<Rightarrow> js_error + TokenMetadataResponse ApiResponse"
  alchemy_getNftMetadata :: "string \<Rightarrow> js_error + 'nftm ApiResponse"
  coingecko_getPrice :: "string \<Rightarrow> string \<Rightarrow> js_error + 'num PriceResponse ApiResponse"
  coingecko_getPriceHistory :: "string \<Rightarrow> int \<Rightarrow> string \<Rightarrow> js_error + 'ph ApiResponse"
  coingecko_getMultiplePrices ::
    "string list \<Rightarrow> string \<Rightarrow> js_error + (string \<rightharpoonup> 'num PriceResponse) ApiResponse"

text \<open>
  An operation returns the provider calls it made, in the order it made them, and its
  outcome: \<open>Inr\<close> the value its promise resolves to, \<open>Inl\<close> the error it rejects with.
\<close>

datatype provider_call =
    Bitcoin_getBalance string
  | Bitcoin_getHistory string int int
  | Alchemy_getBalance string string
  | Alchemy_getGas string gas_type
  | Alchemy_getHistory string string int int
  | Alchemy_getNftOwners string string "string option"
  | Alchemy_getNftsForOwner string string "string option"
  | Alchemy_getTokenMetadata string
  | Alchemy_getNftMetadata string
  | CoinGecko_getPrice string string
  | CoinGecko_getPriceHistory string int string
  | CoinGecko_getMultiplePrices "string list" string

type_synonym 'a async = "provider_call list \<times> (js_error + 'a)"

definition call :: "provider_call \<Rightarrow> js_error + 'a \<Rightarrow> 'a async" where
  "call c r = ([c], r)"

definition throw :: "js_error \<Rightarrow> 'a async" where
  "throw e = ([], Inl e)"

definition return :: "'a \<Rightarrow> 'a async" where
  "return v = ([], Inr v)"

text \<open>
  \<^verbatim>\<open>try { body } catch (error) { return handler(error) }\<close>, and the envelope every
  catch block of the service builds from its code and its fallback message.
\<close>

definition catch_error :: "(js_error \<Rightarrow> 'a) \<Rightarrow> 'a async \<Rightarrow> 'a async" where
  "catch_error handler body =
     (case snd body of Inl e \<Rightarrow> (fst body, Inr (handler e)) | Inr v \<Rightarrow> body)"

definition service_error :: "string \<Rightarrow> string \<Rightarrow> nat \<Rightarrow> js_error \<Rightarrow> 'a ApiResponse" where
  "service_error c fallback now e =
     \<lparr>success = False, data = None,
      error = Some \<lparr>code = c, message = message_or e fallback, details = DetailsError e\<rparr>,
      timestamp = now\<rparr>"

definition unsupported :: "string \<Rightarrow> string \<Rightarrow> nat \<Rightarrow> 'a ApiResponse" where
  "unsupported c m now =
     \<lparr>success = False, data = None,
      error = Some \<lparr>code = c, message = m, details = DetailsNull\<rparr>,
      timestamp = now\<rparr>"

subsection \<open>Operations on one asset or network\<close>

definition getBalance_try ::
  "('gas, 'ph, 'own, 'nfts, 'nftm, 'num) providers \<Rightarrow> string \<Rightarrow> string \<Rightarrow>
   BalanceResponse ApiResponse async" where
  "getBalance_try P address aid =
     (case parseAssetId aid of
        Inl e \<Rightarrow> throw e
      | Inr assetInfo \<Rightarrow>
          if atype assetInfo = Bitcoin
            then call (Bitcoin_getBalance address) (bitcoin_getBalance P address)
          else call (Alchemy_getBalance address aid) (alchemy_getBalance P address aid))"

definition getBalance ::
  "('gas, 'ph, 'own, 'nfts, 'nftm, 'num) providers \<Rightarrow> nat \<Rightarrow> string \<Rightarrow> string \<Rightarrow>
   BalanceResponse ApiResponse async" where
  "getBalance P now address aid =
     catch_error (service_error ''BALANCE_SERVICE_ERROR'' ''Failed to get balance'' now)
       (getBalance_try P address aid)"

definition getGas_try ::
  "('gas, 'ph, 'own, 'nfts, 'nftm, 'num) providers \<Rightarrow> nat \<Rightarrow> string \<Rightarrow> gas_type \<Rightarrow>
   'gas ApiResponse async" where
  "getGas_try P now nid ty =
     (if nid = ''bitcoin''
        then return (unsupported ''UNSUPPORTED_NETWORK''
                       ''Gas price not applicable for Bitcoin'' now)
      else call (Alchemy_getGas nid ty) (alchemy_getGas P nid ty))"

definition getGas ::
  "('gas, 'ph, 'own, 'nfts, 'nftm, 'num) providers \<Rightarrow> nat \<Rightarrow> string \<Rightarrow> gas_type \<Rightarrow>
   'gas ApiResponse async" where
  "getGas P now nid ty =
     catch_error (service_error ''GAS_SERVICE_ERROR'' ''Failed to get gas price'' now)
       (getGas_try P now nid ty)"

definition getPrice_try ::
  "('gas, 'ph, 'own, 'nfts, 'nftm, 'num) providers \<Rightarrow> string \<Rightarrow> string \<Rightarrow>
   'num PriceResponse ApiResponse async" where
  "getPrice_try P aid cur = call (CoinGecko_getPrice aid cur) (coingecko_getPrice P aid cur)"

definition getPrice ::
  "('gas, 'ph, 'own, 'nfts, 'nftm, 'num) providers \<Rightarrow> nat \<Rightarrow> string \<Rightarrow> string \<Rightarrow>
   'num PriceResponse ApiResponse async" where
  "getPrice P now aid cur =
     catch_error (service_error ''PRICE_SERVICE_ERROR'' ''Failed to get price'' now)
       (getPrice_try P aid cur)"

definition getPriceHistory_try ::
  "('gas, 'ph, 'own, 'nfts, 'nftm, 'num) providers \<Rightarrow> string \<Rightarrow> int \<Rightarrow> string \<Rightarrow>
   'ph ApiResponse async" where
  "getPriceHistory_try P aid days cur =
     call (CoinGecko_getPriceHistory aid days cur) (coingecko_getPriceHistory P aid days cur)"

definition getPriceHistory ::
  "('gas, 'ph, 'own, 'nfts, 'nftm, 'num) providers \<Rightarrow> nat \<Rightarrow> string \<Rightarrow> int \<Rightarrow> string \<Rightarrow>
   'ph ApiResponse async" where
  "getPriceHistory P now aid days cur =
     catch_error (service_error ''PRICE_HISTORY_SERVICE_ERROR''
                    ''Failed to get price history'' now)
       (getPriceHistory_try P aid days cur)"

definition getHistory_try ::
  "('gas, 'ph, 'own, 'nfts, 'nftm, 'num) providers \<Rightarrow> string \<Rightarrow> string \<Rightarrow> int \<Rightarrow> int \<Rightarrow>
   HistoryResponse ApiResponse async" where
  "getHistory_try P address aid pg lim =
     (case parseAssetId aid of
        Inl e \<Rightarrow> throw e
      | Inr assetInfo \<Rightarrow>
          if atype assetInfo = Bitcoin
            then call (Bitcoin_getHistory address pg lim) (bitcoin_getHistory P address pg lim)
          else call (Alchemy_getHistory address aid pg lim)
                 (alchemy_getHistory P address aid pg lim))"

definition getHistory ::
  "('gas, 'ph, 'own, 'nfts, 'nftm, 'num) providers \<Rightarrow> nat \<Rightarrow> string \<Rightarrow> string \<Rightarrow> int \<Rightarrow>
   int \<Rightarrow> HistoryResponse ApiResponse async" where
  "getHistory P now address aid pg lim =
     catch_error (service_error ''HISTORY_SERVICE_ERROR''
                    ''Failed to get transaction history'' now)
       (getHistory_try P address aid pg lim)"

definition getNftOwners_try ::
  "('gas, 'ph, 'own, 'nfts, 'nftm, 'num) providers \<Rightarrow> nat \<Rightarrow> string \<Rightarrow> string \<Rightarrow>
   string option \<Rightarrow> 'own ApiResponse async" where
  "getNftOwners_try P now contract nid token =
     (if nid = ''bitcoin''
        then return (unsupported ''UNSUPPORTED_NETWORK'' ''NFTs not supported on Bitcoin'' now)
      else call (Alchemy_getNftOwners contract nid token)
             (alchemy_getNftOwners P contract nid token))"

definition getNftOwners ::
  "('gas, 'ph, 'own, 'nfts, 'nftm, 'num) providers \<Rightarrow> nat \<Rightarrow> string \<Rightarrow> string \<Rightarrow>
   string option \<Rightarrow> 'own ApiResponse async" where
  "getNftOwners P now contract nid token =
     catch_error (service_error ''NFT_OWNERS_SERVICE_ERROR'' ''Failed to get NFT owners'' now)
       (getNftOwners_try P now contract nid token)"

definition getNftsForOwner_try ::
  "('gas, 'ph, 'own, 'nfts, 'nftm, 'num) providers \<Rightarrow> nat \<Rightarrow> string \<Rightarrow> string \<Rightarrow>
   string option \<Rightarrow> 'nfts ApiResponse async" where
  "getNftsForOwner_try P now owner nid contract =
     (if nid = ''bitcoin''
        then return (unsupported ''UNSUPPORTED_NETWORK'' ''NFTs not supported on Bitcoin'' now)
      else call (Alchemy_getNftsForOwner owner nid contract)
             (alchemy_getNftsForOwner P owner nid contract))"

definition getNftsForOwner ::
  "('gas, 'ph, 'own, 'nfts, 'nftm, 'num) providers \<Rightarrow> nat \<Rightarrow> string \<Rightarrow> string \<Rightarrow>
   string option \<Rightarrow> 'nfts ApiResponse async" where
  "getNftsForOwner P now owner nid contract =
     catch_error (service_error ''NFTS_FOR_OWNER_SERVICE_ERROR''
                    ''Failed to fetch NFTs for owner'' now)
       (getNftsForOwner_try P now owner nid contract)"

definition bitcoin_metadata :: TokenMetadataResponse where
  "bitcoin_metadata =
     \<lparr>name = ''Bitcoin'', symbol = ''BTC'', decimals = 8, totalSupply = None,
      metadata_contractAddress = None, metadata_assetId = ''bitcoin'',
      metadata_networkId = ''bitcoin'', metadata_type = Metadata_native, logo = None\<rparr>"

definition getTokenMetadata_try ::
  "('gas, 'ph, 'own, 'nfts, 'nftm, 'num) providers \<Rightarrow> nat \<Rightarrow> string \<Rightarrow>
   TokenMetadataResponse ApiResponse async" where
  "getTokenMetadata_try P now aid =
     (case parseAssetId aid of
        Inl e \<Rightarrow> throw e
      | Inr assetInfo \<Rightarrow>
          if atype assetInfo = Bitcoin
            then return \<lparr>success = True, data = Some bitcoin_metadata, error = None,
                         timestamp = now\<rparr>
          else call (Alchemy_getTokenMetadata aid) (alchemy_getTokenMetadata P aid))"

definition getTokenMetadata ::
  "('gas, 'ph, 'own, 'nfts, 'nftm, 'num) providers \<Rightarrow> nat \<Rightarrow> string \<Rightarrow>
   TokenMetadataResponse ApiResponse async" where
  "getTokenMetadata P now aid =
     catch_error (service_error ''TOKEN_METADATA_SERVICE_ERROR''
                    ''Failed to get token metadata'' now)
       (getTokenMetadata_try P now aid)"

definition getNftMetadata_try ::
  "('gas, 'ph, 'own, 'nfts, 'nftm, 'num) providers \<Rightarrow> nat \<Rightarrow> string \<Rightarrow>
   'nftm ApiResponse async" where
  "getNftMetadata_try P now aid =
     (case parseAssetId aid of
        Inl e \<Rightarrow> throw e
      | Inr assetInfo \<Rightarrow>
          if atype assetInfo = Bitcoin
            then return (unsupported ''UNSUPPORTED_ASSET_TYPE''
                           ''NFTs not supported on Bitcoin'' now)
          else call (Alchemy_getNftMetadata aid) (alchemy_getNftMetadata P aid))"

definition getNftMetadata ::
  "('gas, 'ph, 'own, 'nfts, 'nftm, 'num) providers \<Rightarrow> nat \<Rightarrow> string \<Rightarrow>
   'nftm ApiResponse async" where
  "getNftMetadata P now aid =
     catch_error (service_error ''NFT_METADATA_SERVICE_ERROR''
                    ''Failed to get NFT metadata'' now)
       (getNftMetadata_try P now aid)"

subsection \<open>Operations on several assets\<close>

text \<open>
  \<^verbatim>\<open>Promise.all\<close> resolves to the values of its promises, or rejects with the error of
  a promise that rejects (here the first in the list). The promises of
  \<open>getMultipleBalances\<close> are started in the order of the asset ids, each starting its
  provider call at once, so the calls are logged in that order. Each promise stores its
  balance in \<open>results\<close> under its asset id when its envelope has \<open>success\<close> and
  \<open>data\<close>; a provider answers as a function of its arguments, so the order in which
  the promises settle does not change \<open>results\<close>.

  \<open>results\<close> and the prices are objects read and written by key, modelled by maps.
  A key that names a member of \<^verbatim>\<open>Object.prototype\<close> (\<open>objectPrototypeKeys\<close>) is
  outside this model of their contents: reading it from an object without that key
  gives the inherited member, and storing under \<^verbatim>\<open>__proto__\<close> replaces the prototype.
\<close>

fun promise_all :: "(js_error + 'a) list \<Rightarrow> js_error + 'a list" where
  "promise_all [] = Inr []"
| "promise_all (p # ps) =
     (case p of
        Inl e \<Rightarrow> Inl e
      | Inr v \<Rightarrow> (case promise_all ps of Inl e \<Rightarrow> Inl e | Inr vs \<Rightarrow> Inr (v # vs)))"

definition promise_all2 :: "js_error + 'a \<Rightarrow> js_error + 'b \<Rightarrow> js_error + 'a \<times> 'b" where
  "promise_all2 p q =
     (case p of
        Inl e \<Rightarrow> Inl e
      | Inr a \<Rightarrow> (case q of Inl e \<Rightarrow> Inl e | Inr b \<Rightarrow> Inr (a, b)))"

definition store_balance ::
  "(string \<rightharpoonup> BalanceResponse) \<Rightarrow> string \<times> BalanceResponse ApiResponse \<Rightarrow>
   (string \<rightharpoonup> BalanceResponse)" where
  "store_balance results entry =
     (case entry of
        (aid, result) \<Rightarrow>
          if success result \<and> data result \<noteq> None then results(aid := data result)
          else results)"

definition getMultipleBalances_try ::
  "('gas, 'ph, 'own, 'nfts, 'nftm, 'num) providers \<Rightarrow> nat \<Rightarrow> string \<Rightarrow> string list \<Rightarrow>
   (string \<rightharpoonup> BalanceResponse) ApiResponse async" where
  "getMultipleBalances_try P now address assetIds =
     (let promises = map (\<lambda>aid. getBalance P now address aid) assetIds in
      (concat (map fst promises),
       case promise_all (map snd promises) of
         Inl e \<Rightarrow> Inl e
       | Inr settled \<Rightarrow>
           Inr \<lparr>success = True,
                data = Some (foldl store_balance Map.empty (zip assetIds settled)),
                error = None, timestamp = now\<rparr>))"

definition getMultipleBalances ::
  "('gas, 'ph, 'own, 'nfts, 'nftm, 'num) providers \<Rightarrow> nat \<Rightarrow> string \<Rightarrow> string list \<Rightarrow>
   (string \<rightharpoonup> BalanceResponse) ApiResponse async" where
  "getMultipleBalances P now address assetIds =
     catch_error (service_error ''MULTIPLE_BALANCES_SERVICE_ERROR''
                    ''Failed to get multiple balances'' now)
       (getMultipleBalances_try P now address assetIds)"

definition getMultiplePrices_try ::
  "('gas, 'ph, 'own, 'nfts, 'nftm, 'num) providers \<Rightarrow> string list \<Rightarrow> string \<Rightarrow>
   (string \<rightharpoonup> 'num PriceResponse) ApiResponse async" where
  "getMultiplePrices_try P assetIds cur =
     call (CoinGecko_getMultiplePrices assetIds cur) (coingecko_getMultiplePrices P assetIds cur)"

definition getMultiplePrices ::
  "('gas, 'ph, 'own, 'nfts, 'nftm, 'num) providers \<Rightarrow> nat \<Rightarrow> string list \<Rightarrow> string \<Rightarrow>
   (string \<rightharpoonup> 'num PriceResponse) ApiResponse async" where
  "getMultiplePrices P now assetIds cur =
     catch_error (service_error ''MULTIPLE_PRICES_SERVICE_ERROR''
                    ''Failed to get multiple prices'' now)
       (getMultiplePrices_try P assetIds cur)"

text \<open>
  The portfolio multiplies and adds doubles; \<^verbatim>\<open>parseFloat\<close>, the product, the sum and
  zero are parameters.
\<close>

record 'num number_ops =
  num_parseFloat :: "string \<Rightarrow> 'num"
  num_times :: "'num \<Rightarrow> 'num \<Rightarrow> 'num"
  num_plus :: "'num \<Rightarrow> 'num \<Rightarrow> 'num"
  num_zero :: 'num

record 'num PortfolioEntry =
  entry_assetId :: string
  entry_balance :: string
  entry_price :: 'num
  entry_value :: 'num
  entry_priceChange24h :: 'num

record 'num PortfolioSummary =
  totalValue :: 'num
  summary_currency :: string
  portfolio :: "'num PortfolioEntry list"
  summary_timestamp :: nat

text \<open>
  The loop over the asset ids. \<open>balances\<close> and \<open>prices\<close> are the \<open>data\<close> of the
  two envelopes; reading a key of a missing \<open>data\<close> throws a TypeError.
\<close>

fun portfolio_loop ::
  "'num number_ops \<Rightarrow> (string \<rightharpoonup> BalanceResponse) option \<Rightarrow>
   (string \<rightharpoonup> 'num PriceResponse) option \<Rightarrow> string list \<Rightarrow>
   'num \<times> 'num PortfolioEntry list \<Rightarrow> js_error + 'num \<times> 'num PortfolioEntry list" where
  "portfolio_loop ops balances prices [] acc = Inr acc"
| "portfolio_loop ops balances prices (aid # rest) acc =
     (case balances of
        None \<Rightarrow> Inl (TypeError ''Cannot read properties of undefined'')
      | Some bs \<Rightarrow>
          (case prices of
             None \<Rightarrow> Inl (TypeError ''Cannot read properties of undefined'')
           | Some ps \<Rightarrow>
               (case bs aid of
                  None \<Rightarrow> portfolio_loop ops balances prices rest acc
                | Some bal \<Rightarrow>
                    (case ps aid of
                       None \<Rightarrow> portfolio_loop ops balances prices rest acc
                     | Some pr \<Rightarrow>
                         (let v = num_times ops (num_parseFloat ops (balanceFormatted bal))
                                    (price pr)
                          in portfolio_loop ops balances prices rest
                               (num_plus ops (fst acc) v,
                                snd acc @
                                  [\<lparr>entry_assetId = aid,
                                    entry_balance = balanceFormatted bal,
                                    entry_price = price pr,
                                    entry_value = v,
                                    entry_priceChange24h =
                                      priceChangePercentage24h pr\<rparr>]))))))"

definition getPortfolioSummary_try ::
  "'num number_ops \<Rightarrow> ('gas, 'ph, 'own, 'nfts, 'nftm, 'num) providers \<Rightarrow> nat \<Rightarrow> string \<Rightarrow>
   string list \<Rightarrow> string \<Rightarrow> 'num PortfolioSummary ApiResponse async" where
  "getPortfolioSummary_try ops P now address assetIds cur =
     (let balancesPromise = getMultipleBalances P now address assetIds;
          pricesPromise = getMultiplePrices P now assetIds cur
      in (fst balancesPromise @ fst pricesPromise,
          case promise_all2 (snd balancesPromise) (snd pricesPromise) of
            Inl e \<Rightarrow> Inl e
          | Inr (balancesResult, pricesResult) \<Rightarrow>
              if \<not> success balancesResult \<or> \<not> success pricesResult
                then Inl (Error ''Failed to fetch portfolio data'')
              else
                (case portfolio_loop ops (data balancesResult) (data pricesResult) assetIds
                        (num_zero ops, []) of
                   Inl e \<Rightarrow> Inl e
                 | Inr (value_sum, entries) \<Rightarrow>
                     Inr \<lparr>success = True,
                          data = Some \<lparr>totalValue = value_sum, summary_currency = cur,
                                       portfolio = entries, summary_timestamp = now\<rparr>,
                          error = None, timestamp = now\<rparr>)))"

definition getPortfolioSummary ::
  "'num number_ops \<Rightarrow> ('gas, 'ph, 'own, 'nfts, 'nftm, 'num) providers \<Rightarrow> nat \<Rightarrow> string \<Rightarrow>
   string list \<Rightarrow> string \<Rightarrow> 'num PortfolioSummary ApiResponse async" where
  "getPortfolioSummary ops P now address assetIds cur =
     catch_error (service_error ''PORTFOLIO_SUMMARY_SERVICE_ERROR''
                    ''Failed to get portfolio summary'' now)
       (getPortfolioSummary_try ops P now address assetIds cur)"

section \<open>Notions used to state the properties of the service\<close>

text \<open>
  A well-formed envelope has exactly one of \<open>data\<close> and \<open>error\<close>, and has \<open>data\<close>
  exactly when \<open>success\<close> is true. The providers are well-formed when every envelope
  they return is.
\<close>

definition well_formed :: "'a ApiResponse \<Rightarrow> bool" where
  "well_formed r \<longleftrightarrow> (success r \<longleftrightarrow> data r \<noteq> None) \<and> (error r = None \<longleftrightarrow> data r \<noteq> None)"

definition providers_well_formed ::
  "('gas, 'ph, 'own, 'nfts, 'nftm, 'num) providers \<Rightarrow> bool" where
  "providers_well_formed P \<longleftrightarrow>
     (\<forall>a r. bitcoin_getBalance P a = Inr r \<longrightarrow> well_formed r) \<and>
     (\<forall>a pg lim r. bitcoin_getHistory P a pg lim = Inr r \<longrightarrow> well_formed r) \<and>
     (\<forall>a aid r. alchemy_getBalance P a aid = Inr r \<longrightarrow> well_formed r) \<and>
     (\<forall>nid ty r. alchemy_getGas P nid ty = Inr r \<longrightarrow> well_formed r) \<and>
     (\<forall>a aid pg lim r. alchemy_getHistory P a aid pg lim = Inr r \<longrightarrow> well_formed r) \<and>
     (\<forall>c nid t r. alchemy_getNftOwners P c nid t = Inr r \<longrightarrow> well_formed r) \<and>
     (\<forall>ow nid c r. alchemy_getNftsForOwner P ow nid c = Inr r \<longrightarrow> well_formed r) \<and>
     (\<forall>aid r. alchemy_getTokenMetadata P aid = Inr r \<longrightarrow> well_formed r) \<and>
     (\<forall>aid r. alchemy_getNftMetadata P aid = Inr r \<longrightarrow> well_formed r) \<and>
     (\<forall>aid cur r. coingecko_getPrice P aid cur = Inr r \<longrightarrow> well_formed r) \<and>
     (\<forall>aid days cur r. coingecko_getPriceHistory P aid days cur = Inr r \<longrightarrow> well_formed r) \<and>
     (\<forall>aids cur r. coingecko_getMultiplePrices P aids cur = Inr r \<longrightarrow> well_formed r)"

text \<open>
  The provider call that \<open>getBalance\<close> and \<open>getHistory\<close> make for a parsed asset, and
  the envelope that \<open>getBalance\<close> resolves to (lemma \<open>getBalance_resolves\<close>).
\<close>

definition balance_source ::
  "('gas, 'ph, 'own, 'nfts, 'nftm, 'num) providers \<Rightarrow> string \<Rightarrow> string \<Rightarrow> AssetInfo \<Rightarrow>
   js_error + BalanceResponse ApiResponse" where
  "balance_source P address aid info =
     (if atype info = Bitcoin then bitcoin_getBalance P address
      else alchemy_getBalance P address aid)"

definition history_source ::
  "('gas, 'ph, 'own, 'nfts, 'nftm, 'num) providers \<Rightarrow> string \<Rightarrow> string \<Rightarrow> int \<Rightarrow> int \<Rightarrow>
   AssetInfo \<Rightarrow> js_error + HistoryResponse ApiResponse" where
  "history_source P address aid pg lim info =
     (if atype info = Bitcoin then bitcoin_getHistory P address pg lim
      else alchemy_getHistory P address aid pg lim)"

definition balance_envelope ::
  "('gas, 'ph, 'own, 'nfts, 'nftm, 'num) providers \<Rightarrow> nat \<Rightarrow> string \<Rightarrow> string \<Rightarrow>
   BalanceResponse ApiResponse" where
  "balance_envelope P now address aid =
     (case parseAssetId aid of
        Inl e \<Rightarrow> service_error ''BALANCE_SERVICE_ERROR'' ''Failed to get balance'' now e
      | Inr info \<Rightarrow>
          (case balance_source P address aid info of
             Inl e \<Rightarrow> service_error ''BALANCE_SERVICE_ERROR'' ''Failed to get balance'' now e
           | Inr r \<Rightarrow> r))"

text \<open>
  Providers for the examples: the Bitcoin balance request fails with an envelope, the
  EVM balance request and the price request succeed, every other request throws.
\<close>

definition example_failure :: "BalanceResponse ApiResponse" where
  "example_failure =
     \<lparr>success = False, data = None,
      error = Some \<lparr>code = ''BITCOIN_BALANCE_FETCH_ERROR'',
                    message = ''Request failed with status code 500'',
                    details = DetailsData None\<rparr>,
      timestamp = 0\<rparr>"

definition example_balance :: BalanceResponse where
  "example_balance =
     \<lparr>balance = ''2000000000000000000'', balanceFormatted = ''2'',
      balance_assetId = ''ethereum'', balance_networkId = ''ethereum'',
      balance_timestamp = 0\<rparr>"

definition example_balances :: "string \<rightharpoonup> BalanceResponse" where
  "example_balances = [''ethereum'' \<mapsto> example_balance]"

definition example_price :: "string \<Rightarrow> int PriceResponse" where
  "example_price aid =
     \<lparr>price = 3, priceChange24h = 0, priceChangePercentage24h = 0, marketCap = 0,
      volume24h = 0, price_assetId = aid, currency = ''usd'', price_timestamp = 0\<rparr>"

definition example_prices :: "string \<rightharpoonup> int PriceResponse" where
  "example_prices =
     [''bitcoin'' \<mapsto> example_price ''bitcoin'', ''ethereum'' \<mapsto> example_price ''ethereum'']"

definition unavailable :: js_error where
  "unavailable = AxiosError ''Network Error'' None"

definition example_providers :: "(unit, unit, unit, unit, unit, int) providers" where
  "example_providers =
     \<lparr>bitcoin_getBalance = (\<lambda>a. Inr example_failure),
      bitcoin_getHistory = (\<lambda>a pg lim. Inl unavailable),
      alchemy_getBalance =
        (\<lambda>a aid. Inr \<lparr>success = True, data = Some example_balance, error = None,
                        timestamp = 0\<rparr>),
      alchemy_getGas = (\<lambda>nid ty. Inl unavailable),
      alchemy_getHistory = (\<lambda>a aid pg lim. Inl unavailable),
      alchemy_getNftOwners = (\<lambda>c nid t. Inl unavailable),
      alchemy_getNftsForOwner = (\<lambda>ow nid c. Inl unavailable),
      alchemy_getTokenMetadata = (\<lambda>aid. Inl unavailable),
      alchemy_getNftMetadata = (\<lambda>aid. Inl unavailable),
      coingecko_getPrice = (\<lambda>aid cur. Inl unavailable),
      coingecko_getPriceHistory = (\<lambda>aid days cur. Inl unavailable),
      coingecko_getMultiplePrices =
        (\<lambda>aids cur. Inr \<lparr>success = True, data = Some example_prices, error = None,
                           timestamp = 0\<rparr>)\<rparr>"

text \<open>Integers in the place of doubles, and a \<^verbatim>\<open>parseFloat\<close> that reads \<open>2\<close>.\<close>

definition example_ops :: "int number_ops" where
  "example_ops =
     \<lparr>num_parseFloat = (\<lambda>s. if s = ''2'' then 2 else 0), num_times = (\<lambda>a b. a * b),
      num_plus = (\<lambda>a b. a + b), num_zero = 0\<rparr>"

definition example_summary :: "int PortfolioSummary" where
  "example_summary =
     \<lparr>totalValue = 6, summary_currency = ''usd'',
      portfolio = [\<lparr>entry_assetId = ''ethereum'', entry_balance = ''2'', entry_price = 3,
                    entry_value = 6, entry_priceChange24h = 0\<rparr>],
      summary_timestamp = 0\<rparr>"

section \<open>Properties of splitting and joining\<close>

lemma js_split_not_Nil: "js_split c s \<noteq> []"
  by (induction s) (auto split: list.splits)

lemma js_split_length_count: "length (js_split c s) = Suc (count_list s c)"
  by (induction s) (auto split: list.splits simp: js_split_not_Nil)

lemma js_join_split: "js_join [c] (js_split c s) = s"
proof (induction s)
  case Nil
  then show ?case by simp
next
  case (Cons x xs)
  obtain seg segs where sp: "js_split c xs = seg # segs"
    using js_split_not_Nil by (cases "js_split c xs") auto
  show ?case
  proof (cases "x = c")
    case True
    with Cons sp show ?thesis by simp
  next
    case False
    with Cons sp show ?thesis by (cases segs) auto
  qed
qed

lemma js_split_one: "length (js_split c s) = 1 \<Longrightarrow> js_split c s ! 0 = s"
proof -
  assume "length (js_split c s) = 1"
  then obtain a where a: "js_split c s = [a]"
    by (cases "js_split c s") auto
  from js_join_split[of c s] a show ?thesis by simp
qed

lemma js_split_two:
  "length (js_split c s) = 2 \<Longrightarrow> js_split c s ! 0 @ c # js_split c s ! 1 = s"
proof -
  assume "length (js_split c s) = 2"
  then obtain a b where a: "js_split c s = [a, b]"
    by (auto simp: length_Suc_conv numeral_2_eq_2)
  from js_join_split[of c s] a show ?thesis by simp
qed

lemma js_split_three:
  "length (js_split c s) = 3 \<Longrightarrow>
     js_split c s ! 0 @ c # js_split c s ! 1 @ c # js_split c s ! 2 = s"
proof -
  assume "length (js_split c s) = 3"
  then obtain a b d where a: "js_split c s = [a, b, d]"
    by (auto simp: length_Suc_conv numeral_3_eq_3)
  from js_join_split[of c s] a show ?thesis by simp
qed

section \<open>The asset identifier parser\<close>

text \<open>
  C10. For an identifier without a slash, \<open>parseAssetId\<close> fails if and only if the
  identifier splits into four or more colon-separated segments, and then with the
  invalid-format error; the empty identifier is accepted as a native asset whose network
  id is the empty string.
\<close>

theorem parseAssetId_legacy_fails_iff:
  assumes "CHR ''/'' \<notin> set s"
  shows "((\<exists>e. parseAssetId s = Inl e) \<longleftrightarrow> 4 \<le> length (js_split CHR '':'' s)) \<and>
         (4 \<le> length (js_split CHR '':'' s) \<longrightarrow>
            parseAssetId s = Inl (Error (''Invalid assetId format: '' @ s))) \<and>
         parseAssetId [] =
           Inr \<lparr>assetId = [], networkId = NetworkId [], contractAddress = None,
                tokenId = None, atype = Native\<rparr>"
proof (cases "s = ''bitcoin''")
  case True
  then show ?thesis by (simp add: parseAssetId_def)
next
  case False
  obtain n where n: "length (js_split CHR '':'' s) = Suc n"
    by (simp add: js_split_length_count)
  from assms False show ?thesis
    by (auto simp: parseAssetId_def Let_def n)
qed

theorem parseAssetId_legacy_fails_iff_witness:
  "CHR ''/'' \<notin> set ''invalid:::::'' \<and>
   4 \<le> length (js_split CHR '':'' ''invalid:::::'') \<and>
   parseAssetId ''invalid:::::'' = Inl (Error ''Invalid assetId format: invalid:::::'') \<and>
   CHR ''/'' \<notin> set ''ethereum:0xabc:7'' \<and>
   \<not> 4 \<le> length (js_split CHR '':'' ''ethereum:0xabc:7'') \<and>
   \<not> (\<exists>e. parseAssetId ''ethereum:0xabc:7'' = Inl e)"
  using parseAssetId_legacy_fails_iff[of "''invalid:::::''"]
    parseAssetId_legacy_fails_iff[of "''ethereum:0xabc:7''"]
  by simp

text \<open>
  C1, as stated, fails: with chain namespace \<open>bip122\<close> and asset namespace \<open>erc20\<close>
  the parser returns type \<open>erc20\<close>, not \<open>bitcoin\<close>.
\<close>

theorem parseAssetId_bip122_erc20_counterexample:
  "CHR ''/'' \<in> set ''bip122:000000000019d6689c085ae165831e93/erc20:0xabc'' \<and>
   caip_chainNamespace ''bip122:000000000019d6689c085ae165831e93/erc20:0xabc'' =
     Some ''bip122'' \<and>
   parseAssetId ''bip122:000000000019d6689c085ae165831e93/erc20:0xabc'' =
     Inr \<lparr>assetId = ''bip122:000000000019d6689c085ae165831e93/erc20:0xabc'',
          networkId = NetworkId ''bitcoin'', contractAddress = Some ''0xabc'',
          tokenId = None, atype = Erc20\<rparr>"
  by (simp add: parseAssetId_def parseCAIPAssetId_def caip_chainNamespace_def
      js_index_def Let_def)

text \<open>
  C1 (amended). For every identifier containing a slash whose chain namespace is
  \<open>bip122\<close>: whenever \<open>parseAssetId\<close> returns, the network id is \<open>bitcoin\<close>, and the
  type is \<open>bitcoin\<close> exactly when the asset namespace is \<open>slip44\<close>, while for the
  asset namespaces \<open>erc20\<close>, \<open>erc721\<close> and \<open>erc1155\<close> the type is that of the
  asset namespace; it returns exactly when the asset namespace is one of \<open>slip44\<close>,
  \<open>erc20\<close>, \<open>erc721\<close>, \<open>erc1155\<close>, and fails for any other.
\<close>

theorem parseAssetId_bip122:
  assumes "CHR ''/'' \<in> set aid" and "caip_chainNamespace aid = Some ''bip122''"
  shows "(\<forall>info. parseAssetId aid = Inr info \<longrightarrow>
            networkId info = NetworkId ''bitcoin'' \<and>
            (atype info = Bitcoin \<longleftrightarrow> caip_assetNamespace aid = Some ''slip44'') \<and>
            (caip_assetNamespace aid = Some ''erc20'' \<longrightarrow> atype info = Erc20) \<and>
            (caip_assetNamespace aid = Some ''erc721'' \<longrightarrow> atype info = Erc721) \<and>
            (caip_assetNamespace aid = Some ''erc1155'' \<longrightarrow> atype info = Erc1155)) \<and>
         ((\<exists>info. parseAssetId aid = Inr info) \<longleftrightarrow>
            caip_assetNamespace aid \<in>
              {Some ''slip44'', Some ''erc20'', Some ''erc721'', Some ''erc1155''})"
  using assms
  by (auto simp: parseAssetId_def parseCAIPAssetId_def Let_def caip_chainNamespace_def
      caip_assetNamespace_def split: option.splits if_splits)

theorem parseAssetId_bip122_witness:
  "CHR ''/'' \<in> set ''bip122:000000000019d6689c085ae165831e93/slip44:0'' \<and>
   caip_chainNamespace ''bip122:000000000019d6689c085ae165831e93/slip44:0'' =
     Some ''bip122'' \<and>
   caip_assetNamespace ''bip122:000000000019d6689c085ae165831e93/slip44:0'' =
     Some ''slip44'' \<and>
   (\<exists>info. parseAssetId ''bip122:000000000019d6689c085ae165831e93/slip44:0'' = Inr info \<and>
      networkId info = NetworkId ''bitcoin'' \<and> atype info = Bitcoin) \<and>
   CHR ''/'' \<in> set ''bip122:000000000019d6689c085ae165831e93/erc721:0xabc:7'' \<and>
   caip_chainNamespace ''bip122:000000000019d6689c085ae165831e93/erc721:0xabc:7'' =
     Some ''bip122'' \<and>
   caip_assetNamespace ''bip122:000000000019d6689c085ae165831e93/erc721:0xabc:7'' =
     Some ''erc721'' \<and>
   (\<exists>info. parseAssetId ''bip122:000000000019d6689c085ae165831e93/erc721:0xabc:7'' =
             Inr info \<and>
      networkId info = NetworkId ''bitcoin'' \<and> atype info = Erc721)"
proof -
  let ?a = "''bip122:000000000019d6689c085ae165831e93/slip44:0''"
  let ?b = "''bip122:000000000019d6689c085ae165831e93/erc721:0xabc:7''"
  have s: "CHR ''/'' \<in> set ?a" by simp
  have c: "caip_chainNamespace ?a = Some ''bip122''"
    by (simp add: caip_chainNamespace_def js_index_def)
  have n: "caip_assetNamespace ?a = Some ''slip44''"
    by (simp add: caip_assetNamespace_def js_index_def)
  have s': "CHR ''/'' \<in> set ?b" by simp
  have c': "caip_chainNamespace ?b = Some ''bip122''"
    by (simp add: caip_chainNamespace_def js_index_def)
  have n': "caip_assetNamespace ?b = Some ''erc721''"
    by (simp add: caip_assetNamespace_def js_index_def)
  from parseAssetId_bip122[OF s c] n
  have 1: "\<exists>info. parseAssetId ?a = Inr info \<and>
      networkId info = NetworkId ''bitcoin'' \<and> atype info = Bitcoin"
    by auto
  from parseAssetId_bip122[OF s' c'] n'
  have 2: "\<exists>info. parseAssetId ?b = Inr info \<and>
      networkId info = NetworkId ''bitcoin'' \<and> atype info = Erc721"
    by auto
  from s c n s' c' n' 1 2 show ?thesis by blast
qed

text \<open>
  C2. Whenever \<open>parseAssetId\<close> returns, in either grammar: type native or bitcoin has
  neither contract address nor token id; type erc20 has a contract address and no token
  id; type erc721 or erc1155 has a contract address.
\<close>

theorem parseAssetId_type_invariant:
  "parseAssetId s = Inr info \<Longrightarrow>
   (atype info \<in> {Native, Bitcoin} \<longrightarrow>
      contractAddress info = None \<and> tokenId info = None) \<and>
   (atype info = Erc20 \<longrightarrow> contractAddress info \<noteq> None \<and> tokenId info = None) \<and>
   (atype info \<in> {Erc721, Erc1155} \<longrightarrow> contractAddress info \<noteq> None)"
  by (auto simp: parseAssetId_def parseCAIPAssetId_def Let_def nft_reference_def
      split: if_splits option.splits sum.splits)

theorem parseAssetId_type_invariant_witness:
  "parseAssetId ''eip155:1/erc721:0xabc:12'' =
     Inr \<lparr>assetId = ''eip155:1/erc721:0xabc:12'', networkId = NetworkId ''ethereum'',
          contractAddress = Some ''0xabc'', tokenId = Some ''12'', atype = Erc721\<rparr> \<and>
   contractAddress \<lparr>assetId = ''eip155:1/erc721:0xabc:12'',
          networkId = NetworkId ''ethereum'', contractAddress = Some ''0xabc'',
          tokenId = Some ''12'', atype = Erc721\<rparr> \<noteq> None"
proof -
  let ?i = "\<lparr>assetId = ''eip155:1/erc721:0xabc:12'', networkId = NetworkId ''ethereum'',
          contractAddress = Some ''0xabc'', tokenId = Some ''12'', atype = Erc721\<rparr>"
  have p: "parseAssetId ''eip155:1/erc721:0xabc:12'' = Inr ?i"
    by (simp add: parseAssetId_def parseCAIPAssetId_def js_index_def Let_def
        eip155_networkId_def chainIdMap_def js_template_def nft_reference_def)
  from parseAssetId_type_invariant[OF p] p show ?thesis by simp
qed

section \<open>Rebuilding a legacy identifier\<close>

lemma parse_legacy_cases:
  assumes "CHR ''/'' \<notin> set x" and "x \<noteq> ''bitcoin''" and "parseAssetId x = Inr info"
  shows "(length (js_split CHR '':'' x) = 1 \<and>
            info = \<lparr>assetId = x, networkId = NetworkId (js_split CHR '':'' x ! 0),
                     contractAddress = None, tokenId = None, atype = Native\<rparr>) \<or>
         (length (js_split CHR '':'' x) = 2 \<and>
            info = \<lparr>assetId = x, networkId = NetworkId (js_split CHR '':'' x ! 0),
                     contractAddress = Some (js_split CHR '':'' x ! 1), tokenId = None,
                     atype = Erc20\<rparr>) \<or>
         (length (js_split CHR '':'' x) = 3 \<and>
            info = \<lparr>assetId = x, networkId = NetworkId (js_split CHR '':'' x ! 0),
                     contractAddress = Some (js_split CHR '':'' x ! 1),
                     tokenId = Some (js_split CHR '':'' x ! 2), atype = Erc721\<rparr>)"
  using assms unfolding parseAssetId_def Let_def
  by (simp split: if_splits)

lemma buildAssetId_native:
  "n \<noteq> ''bitcoin'' \<Longrightarrow> buildAssetId n None None = n"
  by (simp add: buildAssetId_def js_truthy_def)

lemma buildAssetId_token:
  "n \<noteq> ''bitcoin'' \<Longrightarrow> c \<noteq> [] \<Longrightarrow> buildAssetId n (Some c) None = n @ CHR '':'' # c"
  by (simp add: buildAssetId_def js_truthy_def js_template_def)

lemma buildAssetId_nft:
  "n \<noteq> ''bitcoin'' \<Longrightarrow> c \<noteq> [] \<Longrightarrow> t \<noteq> [] \<Longrightarrow>
     buildAssetId n (Some c) (Some t) = n @ CHR '':'' # c @ CHR '':'' # t"
  by (simp add: buildAssetId_def js_truthy_def js_template_def)

text \<open>
  C3, as stated, fails. \<open>ethereum:\<close> parses to an erc20 asset with the empty contract
  address, and the identifier built from it is \<open>ethereum\<close>, which parses to a native
  asset. \<open>bitcoin:0xabc\<close> parses to an erc20 asset on network \<open>bitcoin\<close>, and the
  identifier built from it is \<open>bitcoin\<close>, which parses to the bitcoin asset.
\<close>

theorem buildAssetId_roundtrip_counterexample:
  "CHR ''/'' \<notin> set ''ethereum:'' \<and>
   parseAssetId ''ethereum:'' =
     Inr \<lparr>assetId = ''ethereum:'', networkId = NetworkId ''ethereum'',
          contractAddress = Some [], tokenId = None, atype = Erc20\<rparr> \<and>
   buildAssetId ''ethereum'' (Some []) None = ''ethereum'' \<and>
   parseAssetId ''ethereum'' =
     Inr \<lparr>assetId = ''ethereum'', networkId = NetworkId ''ethereum'',
          contractAddress = None, tokenId = None, atype = Native\<rparr> \<and>
   CHR ''/'' \<notin> set ''bitcoin:0xabc'' \<and>
   parseAssetId ''bitcoin:0xabc'' =
     Inr \<lparr>assetId = ''bitcoin:0xabc'', networkId = NetworkId ''bitcoin'',
          contractAddress = Some ''0xabc'', tokenId = None, atype = Erc20\<rparr> \<and>
   buildAssetId ''bitcoin'' (Some ''0xabc'') None = ''bitcoin'' \<and>
   parseAssetId ''bitcoin'' =
     Inr \<lparr>assetId = ''bitcoin'', networkId = NetworkId ''bitcoin'',
          contractAddress = None, tokenId = None, atype = Bitcoin\<rparr>"
  by (simp add: parseAssetId_def buildAssetId_def js_truthy_def Let_def)

text \<open>
  C3 (amended). For every identifier \<open>x\<close> without a slash on which \<open>parseAssetId\<close>
  returns, if \<open>x\<close> is \<open>bitcoin\<close> or its network id is not \<open>bitcoin\<close>, and neither the
  contract address nor the token id is the empty string, then \<open>buildAssetId\<close> applied
  to the parsed network id, contract address and token id returns \<open>x\<close> itself.
\<close>

theorem buildAssetId_parseAssetId:
  assumes "CHR ''/'' \<notin> set x" and "parseAssetId x = Inr info"
    and "x = ''bitcoin'' \<or> networkId info \<noteq> NetworkId ''bitcoin''"
    and "contractAddress info \<noteq> Some []" and "tokenId info \<noteq> Some []"
  shows "\<exists>n. networkId info = NetworkId n \<and>
             buildAssetId n (contractAddress info) (tokenId info) = x"
proof (cases "x = ''bitcoin''")
  case True
  with assms(2) have "info = \<lparr>assetId = x, networkId = NetworkId ''bitcoin'',
        contractAddress = None, tokenId = None, atype = Bitcoin\<rparr>"
    by (simp add: parseAssetId_def)
  with True show ?thesis by (simp add: buildAssetId_def)
next
  case False
  let ?p = "js_split CHR '':'' x"
  from False assms(3) have nb: "networkId info \<noteq> NetworkId ''bitcoin''" by simp
  from parse_legacy_cases[OF assms(1) False assms(2)]
  consider
    (one) "length ?p = 1" "networkId info = NetworkId (?p ! 0)"
          "contractAddress info = None" "tokenId info = None"
  | (two) "length ?p = 2" "networkId info = NetworkId (?p ! 0)"
          "contractAddress info = Some (?p ! 1)" "tokenId info = None"
  | (three) "length ?p = 3" "networkId info = NetworkId (?p ! 0)"
          "contractAddress info = Some (?p ! 1)" "tokenId info = Some (?p ! 2)"
    by fastforce
  then show ?thesis
  proof cases
    case one
    from nb one(2) have n: "?p ! 0 \<noteq> ''bitcoin''" by simp
    have "buildAssetId (?p ! 0) None None = x"
      using buildAssetId_native[OF n] by (simp only: js_split_one[OF one(1)])
    with one show ?thesis by simp
  next
    case two
    from nb two(2) have n: "?p ! 0 \<noteq> ''bitcoin''" by simp
    from assms(4) two(3) have c: "?p ! 1 \<noteq> []" by simp
    have "buildAssetId (?p ! 0) (Some (?p ! 1)) None = x"
      using js_split_two[OF two(1)] by (simp only: buildAssetId_token[OF n c])
    with two show ?thesis by simp
  next
    case three
    from nb three(2) have n: "?p ! 0 \<noteq> ''bitcoin''" by simp
    from assms(4) three(3) have c: "?p ! 1 \<noteq> []" by simp
    from assms(5) three(4) have t: "?p ! 2 \<noteq> []" by simp
    have "buildAssetId (?p ! 0) (Some (?p ! 1)) (Some (?p ! 2)) = x"
      using js_split_three[OF three(1)] by (simp only: buildAssetId_nft[OF n c t])
    with three show ?thesis by simp
  qed
qed

theorem buildAssetId_parseAssetId_witness:
  "CHR ''/'' \<notin> set ''ethereum:0xabc:7'' \<and>
   parseAssetId ''ethereum:0xabc:7'' =
     Inr \<lparr>assetId = ''ethereum:0xabc:7'', networkId = NetworkId ''ethereum'',
          contractAddress = Some ''0xabc'', tokenId = Some ''7'', atype = Erc721\<rparr> \<and>
   buildAssetId ''ethereum'' (Some ''0xabc'') (Some ''7'') = ''ethereum:0xabc:7''"
proof -
  let ?i = "\<lparr>assetId = ''ethereum:0xabc:7'', networkId = NetworkId ''ethereum'',
          contractAddress = Some ''0xabc'', tokenId = Some ''7'', atype = Erc721\<rparr>"
  have p: "parseAssetId ''ethereum:0xabc:7'' = Inr ?i"
    by (simp add: parseAssetId_def Let_def)
  have s: "CHR ''/'' \<notin> set ''ethereum:0xabc:7''" by simp
  from buildAssetId_parseAssetId[OF s p] p s show ?thesis by simp
qed

section \<open>Unit conversion\<close>

lemma weiToEther_toHumanUnit: "weiToEther s = toHumanUnit 18 s"
  unfolding weiToEther_def toHumanUnit_def Let_def by simp

lemma satoshiToBitcoin_toHumanUnit: "satoshiToBitcoin s = toHumanUnit 8 s"
  unfolding satoshiToBitcoin_def toHumanUnit_def Let_def by simp

lemma etherToWei_toBaseUnit: "etherToWei s = toBaseUnit 18 s"
  unfolding etherToWei_def toBaseUnit_def Let_def by simp

lemma bitcoinToSatoshi_toBaseUnit: "bitcoinToSatoshi s = toBaseUnit 8 s"
  unfolding bitcoinToSatoshi_def toBaseUnit_def Let_def by simp

lemma digit_val_digit_char: "d < 10 \<Longrightarrow> digit_val (digit_char d) = Some d"
  by (simp add: digit_val_def digit_char_def)

lemma is_digit_digit_char: "d < 10 \<Longrightarrow> is_digit (digit_char d)"
  by (simp add: is_digit_def digit_char_def)

lemma is_digit_zero: "is_digit CHR ''0''"
  by (simp add: is_digit_def)

lemma digit_val_zero: "digit_val CHR ''0'' = Some 0"
  by (simp add: digit_val_def)

lemma digit_val_is_digit: "is_digit c \<Longrightarrow> \<exists>d<10. digit_val c = Some d"
  by (auto simp: is_digit_def digit_val_def Let_def)

lemma digits_not_Nil: "digits n \<noteq> []"
  by (subst digits.simps) simp

lemma digits_is_digit: "c \<in> set (digits n) \<Longrightarrow> is_digit c"
proof (induction n rule: digits.induct)
  case (1 n)
  show ?case
  proof (cases "n < 10")
    case True
    with 1(2) show ?thesis by (subst (asm) digits.simps) (simp add: is_digit_digit_char)
  next
    case False
    with 1(2) have "c \<in> set (digits (n div 10)) \<or> c = digit_char (n mod 10)"
      by (subst (asm) digits.simps) auto
    with 1(1)[OF False] show ?thesis by (auto simp: is_digit_digit_char)
  qed
qed

lemma digits_value_append:
  "digits_value b acc (s @ t) =
     (case digits_value b acc s of None \<Rightarrow> None | Some a \<Rightarrow> digits_value b a t)"
  by (induction s arbitrary: acc) (auto split: option.splits)

lemma digits_value_digits:
  "digits_value 10 acc (digits n) = Some (acc * 10 ^ length (digits n) + n)"
proof (induction n arbitrary: acc rule: digits.induct)
  case (1 n)
  show ?case
  proof (cases "n < 10")
    case True
    then show ?thesis by (subst (1 2) digits.simps) (simp add: digit_val_digit_char)
  next
    case False
    have "digits n = digits (n div 10) @ [digit_char (n mod 10)]"
      using False by (subst digits.simps) simp
    then show ?thesis
      using 1[OF False] by (simp add: digits_value_append digit_val_digit_char algebra_simps)
  qed
qed

lemma digits_value_zeros:
  "digits_value 10 acc (replicate k CHR ''0'' @ s) = digits_value 10 (acc * 10 ^ k) s"
  by (induction k arbitrary: acc) (simp_all add: digit_val_zero algebra_simps)

lemma length_digits_le: "n < 10 ^ k \<Longrightarrow> 0 < k \<Longrightarrow> length (digits n) \<le> k"
proof (induction n arbitrary: k rule: digits.induct)
  case (1 n)
  show ?case
  proof (cases "n < 10")
    case True
    with 1(3) show ?thesis by (subst digits.simps) simp
  next
    case False
    from 1(3) obtain j where k: "k = Suc j" by (cases k) auto
    with 1(2) False have j: "0 < j" by (cases j) auto
    from 1(2) k have "n div 10 < 10 ^ j" by (simp add: less_mult_imp_div_less mult.commute)
    from 1(1)[OF False this j] have "length (digits (n div 10)) \<le> j" .
    with False k show ?thesis by (subst digits.simps) simp
  qed
qed

lemma strip_trailing_zeros_decomp:
  "strip_trailing_zeros s @ replicate (length s - length (strip_trailing_zeros s)) CHR ''0'' = s"
proof -
  let ?P = "\<lambda>c. c = CHR ''0''"
  have tw: "takeWhile ?P xs = replicate (length (takeWhile ?P xs)) CHR ''0''" for xs
    by (induction xs) auto
  have "rev s = takeWhile ?P (rev s) @ dropWhile ?P (rev s)" by simp
  then have "s = rev (dropWhile ?P (rev s)) @ rev (takeWhile ?P (rev s))"
    by (metis rev_append rev_rev_ident)
  moreover have "rev (takeWhile ?P (rev s)) = replicate (length (takeWhile ?P (rev s))) CHR ''0''"
    using tw[of "rev s"] by (metis rev_replicate)
  moreover have "length (takeWhile ?P (rev s)) = length s - length (strip_trailing_zeros s)"
  proof -
    have "length (takeWhile ?P (rev s)) + length (dropWhile ?P (rev s)) = length (rev s)"
      by (metis length_append takeWhile_dropWhile_id)
    then show ?thesis by (simp add: strip_trailing_zeros_def)
  qed
  ultimately show ?thesis by (simp add: strip_trailing_zeros_def)
qed


lemma strip_pad_take:
  "length s = d \<Longrightarrow> take d (padEnd d CHR ''0'' (strip_trailing_zeros s)) = s"
proof -
  assume l: "length s = d"
  have "padEnd d CHR ''0'' (strip_trailing_zeros s) = s"
    using strip_trailing_zeros_decomp[of s] l by (simp add: padEnd_def)
  with l show ?thesis by simp
qed

lemma js_split_no_sep: "c \<notin> set a \<Longrightarrow> js_split c a = [a]"
  by (induction a) auto

lemma js_split_at_sep:
  "c \<notin> set a \<Longrightarrow> js_split c (a @ c # b) = a # js_split c b"
  by (induction a) auto

lemma is_digit_not_white: "is_digit c \<Longrightarrow> \<not> is_white c"
  by (auto simp: is_digit_def is_white_def)

lemma js_trim_digits:
  assumes "t \<noteq> []" and "\<forall>c\<in>set t. is_digit c"
  shows "js_trim t = t"
proof -
  from assms have h: "\<not> is_white (hd t)" and l: "\<not> is_white (last t)"
    by (simp_all add: is_digit_not_white)
  from h assms(1) have 1: "dropWhile is_white t = t"
    by (cases t) auto
  from l assms(1) have 2: "dropWhile is_white (rev t) = rev t"
    by (cases "rev t") (auto simp: last_rev dest: arg_cong[where f = hd])
  show ?thesis by (simp add: js_trim_def 1 2)
qed

lemma parse_digits_all_digits:
  "\<forall>c\<in>set t. is_digit c \<Longrightarrow> \<exists>v. digits_value 10 acc t = Some v"
proof (induction t arbitrary: acc)
  case Nil
  then show ?case by simp
next
  case (Cons c t)
  then obtain d where "d < 10" "digit_val c = Some d"
    using digit_val_is_digit[of c] by auto
  with Cons show ?case by simp
qed

lemma StringToBigInt_digits:
  assumes "t \<noteq> []" and "\<forall>c\<in>set t. is_digit c"
  shows "StringToBigInt t = map_option int (digits_value 10 0 t)"
proof -
  obtain c0 cs where t: "t = c0 # cs" using assms(1) by (cases t) auto
  from assms(2) t have c0: "is_digit c0" by simp
  then have sign: "c0 \<noteq> CHR ''+''" "c0 \<noteq> CHR ''-''"
    by (auto simp: is_digit_def)
  have sd: "signed_decimal t = map_option int (digits_value 10 0 t)"
    using sign t by (simp add: signed_decimal_def parse_digits_def)
  show ?thesis
  proof (cases cs)
    case Nil
    with t sd show ?thesis
      using js_trim_digits[OF assms] by (simp add: StringToBigInt_def)
  next
    case (Cons c1 ds)
    with assms(2) t have "is_digit c1" by simp
    then have "c1 \<noteq> CHR ''x''" "c1 \<noteq> CHR ''X''" "c1 \<noteq> CHR ''o''" "c1 \<noteq> CHR ''O''"
      "c1 \<noteq> CHR ''b''" "c1 \<noteq> CHR ''B''"
      by (auto simp: is_digit_def)
    with t Cons sd show ?thesis
      using js_trim_digits[OF assms] by (simp add: StringToBigInt_def)
  qed
qed


lemma is_digit_not_dot: "is_digit c \<Longrightarrow> c \<noteq> CHR ''.''"
  by (auto simp: is_digit_def)

lemma BigInt_digits: "BigInt (digits n) = Inr (int n)"
proof -
  have "StringToBigInt (digits n) = map_option int (digits_value 10 0 (digits n))"
    by (rule StringToBigInt_digits) (auto simp: digits_not_Nil digits_is_digit)
  then show ?thesis by (simp add: BigInt_def digits_value_digits)
qed

lemma BigInt_padded_digits:
  assumes "0 < d"
  shows "BigInt (replicate k CHR ''0'' @ digits n) = Inr (int n)"
proof -
  let ?t = "replicate k CHR ''0'' @ digits n"
  have "StringToBigInt ?t = map_option int (digits_value 10 0 ?t)"
    by (rule StringToBigInt_digits) (auto simp: digits_not_Nil digits_is_digit is_digit_zero)
  then show ?thesis
    by (simp add: BigInt_def digits_value_zeros digits_value_digits)
qed

lemma BigInt_zeros: "0 < d \<Longrightarrow> BigInt (replicate d CHR ''0'') = Inr 0"
proof -
  assume d: "0 < d"
  let ?t = "replicate d CHR ''0''"
  have "StringToBigInt ?t = map_option int (digits_value 10 0 ?t)"
    using d by (intro StringToBigInt_digits) (auto simp: is_digit_zero)
  moreover have "digits_value 10 0 ?t = Some 0"
    using digits_value_zeros[of 0 d "[]"] by simp
  ultimately show ?thesis by (simp add: BigInt_def)
qed

lemma toString_nonneg: "0 \<le> i \<Longrightarrow> toString i = digits (nat i)"
  by (simp add: toString_def)

lemma bigint_div_nonneg: "0 \<le> a \<Longrightarrow> 0 < b \<Longrightarrow> bigint_div a b = a div b"
  by (simp add: bigint_div_def sgn_if)

lemma bigint_rem_nonneg: "0 \<le> a \<Longrightarrow> 0 < b \<Longrightarrow> bigint_rem a b = a mod b"
  by (simp add: bigint_rem_def sgn_if)

lemma digits_nonzero_char:
  assumes "0 < n"
  shows "\<exists>c\<in>set (digits n). c \<noteq> CHR ''0''"
proof (rule ccontr)
  assume "\<not> (\<exists>c\<in>set (digits n). c \<noteq> CHR ''0'')"
  then have "digits n = replicate (length (digits n)) CHR ''0''"
    by (simp add: replicate_length_same)
  then have "digits_value 10 0 (digits n) = digits_value 10 0 (replicate (length (digits n)) CHR ''0'' @ [])"
    by simp
  also have "\<dots> = Some 0"
    by (simp only: digits_value_zeros) simp
  finally show False using assms by (simp add: digits_value_digits)
qed

lemma toString_nonzero_char:
  assumes "i \<noteq> 0"
  shows "\<exists>c\<in>set (toString i). c \<noteq> CHR ''0''"
proof (cases "i < 0")
  case True
  then show ?thesis by (simp add: toString_def)
next
  case False
  with assms have "0 < nat i" by simp
  from digits_nonzero_char[OF this] False show ?thesis by (simp add: toString_def)
qed

lemma strip_trailing_zeros_not_Nil:
  "\<exists>c\<in>set s. c \<noteq> CHR ''0'' \<Longrightarrow> strip_trailing_zeros s \<noteq> []"
  by (auto simp: strip_trailing_zeros_def dropWhile_eq_Nil_conv)

lemma strip_trailing_zeros_last:
  "strip_trailing_zeros s \<noteq> [] \<Longrightarrow> last (strip_trailing_zeros s) \<noteq> CHR ''0''"
  using hd_dropWhile[of "\<lambda>c. c = CHR ''0''" "rev s"]
  by (simp add: strip_trailing_zeros_def last_rev)

lemma strip_trailing_zeros_subset: "set (strip_trailing_zeros s) \<subseteq> set s"
  using set_dropWhileD[of _ "\<lambda>c. c = CHR ''0''" "rev s"]
  by (auto simp: strip_trailing_zeros_def)

lemma digits_no_dot: "CHR ''.'' \<notin> set (digits n)"
proof
  assume "CHR ''.'' \<in> set (digits n)"
  from is_digit_not_dot[OF digits_is_digit[OF this]] show False by simp
qed

lemma toString_no_dot: "CHR ''.'' \<notin> set (toString i)"
  by (simp add: toString_def digits_no_dot)

lemma toHumanUnit_format:
  assumes "BigInt s = Inr b"
  shows "(bigint_rem b (10 ^ d) = 0 \<longrightarrow>
            toHumanUnit d s = Inr (toString (bigint_div b (10 ^ d)))) \<and>
         (bigint_rem b (10 ^ d) \<noteq> 0 \<longrightarrow>
            (\<exists>dp. toHumanUnit d s = Inr (toString (bigint_div b (10 ^ d)) @ ''.'' @ dp) \<and>
                  dp \<noteq> [] \<and> last dp \<noteq> CHR ''0''))"
proof (cases "bigint_rem b (10 ^ d) = 0")
  case True
  with assms show ?thesis by (simp add: toHumanUnit_def)
next
  case False
  let ?dp = "strip_trailing_zeros (padStart d CHR ''0'' (toString (bigint_rem b (10 ^ d))))"
  from toString_nonzero_char[OF False]
  have "\<exists>c\<in>set (padStart d CHR ''0'' (toString (bigint_rem b (10 ^ d)))). c \<noteq> CHR ''0''"
    by (auto simp: padStart_def)
  then have ne: "?dp \<noteq> []" by (rule strip_trailing_zeros_not_Nil)
  then have "last ?dp \<noteq> CHR ''0''" by (rule strip_trailing_zeros_last)
  with ne False assms show ?thesis by (simp add: toHumanUnit_def Let_def)
qed

lemma toBaseUnit_toHumanUnit:
  assumes b: "0 \<le> b" and d: "0 < d"
  shows "\<exists>h. toHumanUnit d (toString b) = Inr h \<and> toBaseUnit d h = Inr (toString b)"
proof -
  let ?m = "(10::int) ^ d"
  let ?e = "b div ?m" and ?r = "b mod ?m"
  have m: "0 < ?m" by simp
  have big: "BigInt (toString b) = Inr b"
    using b by (simp add: toString_nonneg BigInt_digits)
  have e: "0 \<le> ?e" using b m by (simp add: pos_imp_zdiv_nonneg_iff)
  have r: "0 \<le> ?r" "?r < ?m" using m by simp_all
  have dv: "bigint_div b ?m = ?e" "bigint_rem b ?m = ?r"
    using b m by (simp_all add: bigint_div_nonneg bigint_rem_nonneg)
  have se: "toString ?e = digits (nat ?e)" using e by (rule toString_nonneg)
  show ?thesis
  proof (cases "?r = 0")
    case True
    let ?h = "toString ?e"
    have h: "toHumanUnit d (toString b) = Inr ?h"
      using toHumanUnit_format[OF big, of d] True dv by simp
    have sp: "js_split CHR ''.'' ?h = [?h]"
      by (rule js_split_no_sep) (rule toString_no_dot)
    have "b = ?e * ?m" using True by (simp add: mod_eq_0_iff_dvd)
    then have "toString (?e * ?m + 0) = toString b" by simp
    then have "toBaseUnit d ?h = Inr (toString b)"
      unfolding toBaseUnit_def Let_def sp
      using d by (simp add: js_index_def js_template_def padEnd_def BigInt_zeros se BigInt_digits e)
    with h show ?thesis by blast
  next
    case False
    let ?rs = "padStart d CHR ''0'' (toString ?r)"
    let ?dp = "strip_trailing_zeros ?rs"
    let ?h = "toString ?e @ ''.'' @ ?dp"
    have sr: "toString ?r = digits (nat ?r)" using r(1) by (rule toString_nonneg)
    have "nat ?r < 10 ^ d" using r by (simp add: nat_less_iff)
    then have len: "length (digits (nat ?r)) \<le> d" using d by (rule length_digits_le)
    then have lrs: "length ?rs = d" by (simp add: padStart_def sr)
    have ne: "?dp \<noteq> []"
      using toString_nonzero_char[OF False]
      by (intro strip_trailing_zeros_not_Nil) (auto simp: padStart_def)
    have h: "toHumanUnit d (toString b) = Inr ?h"
      using big False dv ne by (simp add: toHumanUnit_def Let_def)
    have rsd: "\<forall>c\<in>set ?rs. is_digit c"
      by (auto simp: padStart_def sr is_digit_zero digits_is_digit)
    have "CHR ''.'' \<notin> set ?rs"
      using rsd is_digit_not_dot by blast
    then have nd: "CHR ''.'' \<notin> set ?dp"
      using strip_trailing_zeros_subset[of ?rs] by blast
    have sp: "js_split CHR ''.'' ?h = [toString ?e, ?dp]"
      using js_split_at_sep[OF toString_no_dot, of ?e ?dp] js_split_no_sep[OF nd] by simp
    have pad: "take d (padEnd d CHR ''0'' ?dp) = ?rs" using lrs by (rule strip_pad_take)
    have brs: "BigInt ?rs = Inr ?r"
      using BigInt_padded_digits[OF d, of "d - length (digits (nat ?r))" "nat ?r"] r(1)
      by (simp add: padStart_def sr)
    have eq: "?e * ?m + ?r = b" by (rule div_mult_mod_eq)
    have "toBaseUnit d ?h = Inr (toString b)"
      unfolding toBaseUnit_def Let_def sp
      by (simp add: js_index_def js_template_def pad brs se BigInt_digits e eq)
    with h show ?thesis by blast
  qed
qed

lemma digit_char_simps:
  "digit_char 0 = CHR ''0''" "digit_char 1 = CHR ''1''" "digit_char 2 = CHR ''2''"
  "digit_char 3 = CHR ''3''" "digit_char 4 = CHR ''4''" "digit_char 5 = CHR ''5''"
  "digit_char 6 = CHR ''6''" "digit_char 7 = CHR ''7''" "digit_char 8 = CHR ''8''"
  "digit_char 9 = CHR ''9''" "digit_char (Suc 0) = CHR ''1''"
  by (simp_all add: digit_char_def char_of_def bit_Suc_0_iff)


lemma weiToEther_examples:
  "weiToEther ''0'' = Inr ''0''"
  "weiToEther ''1000000000000000000'' = Inr ''1''"
  "weiToEther ''1500000000000000000'' = Inr ''1.5''"
  by (simp_all add: weiToEther_def satoshiToBitcoin_def BigInt_def StringToBigInt_def js_trim_def
      is_white_def signed_decimal_def parse_digits_def digit_val_def bigint_div_def
      bigint_rem_def toString_def digits.simps digit_char_simps padStart_def
      strip_trailing_zeros_def Let_def)

lemma satoshiToBitcoin_examples:
  "satoshiToBitcoin ''100000000'' = Inr ''1''"
  "satoshiToBitcoin ''123456789'' = Inr ''1.23456789''"
  by (simp_all add: weiToEther_def satoshiToBitcoin_def BigInt_def StringToBigInt_def js_trim_def
      is_white_def signed_decimal_def parse_digits_def digit_val_def bigint_div_def
      bigint_rem_def toString_def digits.simps digit_char_simps padStart_def
      strip_trailing_zeros_def Let_def)

lemma toString_examples:
  "toString 1500000000000000000 = ''1500000000000000000''"
  "toString 123456789 = ''123456789''"
  by (simp_all add: toString_def digits.simps digit_char_simps)

text \<open>
  C4. For every non-negative integer \<open>b\<close>, written in decimal: \<open>weiToEther\<close> returns
  a text from which \<open>etherToWei\<close> returns \<open>b\<close> again (18 decimals), and
  \<open>satoshiToBitcoin\<close> returns a text from which \<open>bitcoinToSatoshi\<close> returns \<open>b\<close>
  again (8 decimals).
\<close>

theorem unit_conversion_roundtrip:
  assumes "0 \<le> b"
  shows "(\<exists>h. weiToEther (toString b) = Inr h \<and> etherToWei h = Inr (toString b)) \<and>
         (\<exists>h. satoshiToBitcoin (toString b) = Inr h \<and>
              bitcoinToSatoshi h = Inr (toString b))"
  using toBaseUnit_toHumanUnit[OF assms, of 18] toBaseUnit_toHumanUnit[OF assms, of 8]
  by (simp add: weiToEther_toHumanUnit etherToWei_toBaseUnit satoshiToBitcoin_toHumanUnit
      bitcoinToSatoshi_toBaseUnit)

theorem unit_conversion_roundtrip_witness:
  "(0::int) \<le> 1500000000000000000 \<and>
   weiToEther ''1500000000000000000'' = Inr ''1.5'' \<and>
   etherToWei ''1.5'' = Inr ''1500000000000000000'' \<and>
   (0::int) \<le> 123456789 \<and>
   satoshiToBitcoin ''123456789'' = Inr ''1.23456789'' \<and>
   bitcoinToSatoshi ''1.23456789'' = Inr ''123456789''"
  using unit_conversion_roundtrip[of 1500000000000000000]
    unit_conversion_roundtrip[of 123456789]
  by (simp add: toString_examples weiToEther_examples satoshiToBitcoin_examples)

text \<open>
  C9. Whenever the input reads as an integer \<open>b\<close>: if the remainder of \<open>b\<close> by the
  unit is zero, the result is the integer part alone, which has no decimal point;
  otherwise it is the integer part, a point and a non-empty fractional part that does not
  end in a zero. In particular \<open>weiToEther\<close> maps \<open>0\<close> to \<open>0\<close>, \<open>10 ^ 18\<close> to
  \<open>1\<close> and \<open>15 * 10 ^ 17\<close> to \<open>1.5\<close>, and \<open>satoshiToBitcoin\<close> maps \<open>10 ^ 8\<close>
  to \<open>1\<close>.
\<close>

theorem toHumanUnit_no_trailing_zeros:
  assumes "BigInt s = Inr b"
  shows "(bigint_rem b (10 ^ 18) = 0 \<longrightarrow>
            weiToEther s = Inr (toString (bigint_div b (10 ^ 18)))) \<and>
         (bigint_rem b (10 ^ 18) \<noteq> 0 \<longrightarrow>
            (\<exists>dp. weiToEther s = Inr (toString (bigint_div b (10 ^ 18)) @ ''.'' @ dp) \<and>
                  dp \<noteq> [] \<and> last dp \<noteq> CHR ''0'')) \<and>
         (bigint_rem b (10 ^ 8) = 0 \<longrightarrow>
            satoshiToBitcoin s = Inr (toString (bigint_div b (10 ^ 8)))) \<and>
         (bigint_rem b (10 ^ 8) \<noteq> 0 \<longrightarrow>
            (\<exists>dp. satoshiToBitcoin s = Inr (toString (bigint_div b (10 ^ 8)) @ ''.'' @ dp) \<and>
                  dp \<noteq> [] \<and> last dp \<noteq> CHR ''0'')) \<and>
         CHR ''.'' \<notin> set (toString (bigint_div b (10 ^ 18))) \<and>
         CHR ''.'' \<notin> set (toString (bigint_div b (10 ^ 8))) \<and>
         weiToEther ''0'' = Inr ''0'' \<and>
         weiToEther ''1000000000000000000'' = Inr ''1'' \<and>
         weiToEther ''1500000000000000000'' = Inr ''1.5'' \<and>
         satoshiToBitcoin ''100000000'' = Inr ''1''"
  using toHumanUnit_format[OF assms, of 18, folded weiToEther_toHumanUnit]
    toHumanUnit_format[OF assms, of 8, folded satoshiToBitcoin_toHumanUnit]
  by (simp add: toString_no_dot weiToEther_examples satoshiToBitcoin_examples)

theorem toHumanUnit_no_trailing_zeros_witness:
  "BigInt ''1500000000000000000'' = Inr 1500000000000000000 \<and>
   bigint_rem 1500000000000000000 (10 ^ 18) \<noteq> 0 \<and>
   bigint_rem 1500000000000000000 (10 ^ 8) = 0 \<and>
   weiToEther ''1500000000000000000'' = Inr ''1.5'' \<and>
   satoshiToBitcoin ''1500000000000000000'' = Inr ''15000000000''"
proof -
  have b: "BigInt ''1500000000000000000'' = Inr 1500000000000000000"
    using BigInt_digits[of 1500000000000000000]
    by (simp add: digits.simps digit_char_simps)
  have r: "bigint_rem 1500000000000000000 (10 ^ 18) \<noteq> 0"
    "bigint_rem 1500000000000000000 (10 ^ 8) = 0"
    "toString (bigint_div 1500000000000000000 (10 ^ 8)) = ''15000000000''"
    by (simp_all add: bigint_rem_def bigint_div_def toString_def digits.simps
        digit_char_simps)
  from toHumanUnit_no_trailing_zeros[OF b] b r show ?thesis by simp
qed

section \<open>The history of a Bitcoin address\<close>

lemma satoshiToBitcoin_number: "\<exists>f. satoshiToBitcoin (number_toString n) = Inr f"
  using toHumanUnit_format[OF BigInt_digits[of n], of 8]
  by (cases "bigint_rem (int n) (10 ^ 8) = 0")
     (auto simp: satoshiToBitcoin_toHumanUnit number_toString_def)

lemma number_toString_0: "number_toString 0 = ''0''"
  by (simp add: number_toString_def digits.simps digit_char_simps)

lemma satoshiToBitcoin_zero: "\<exists>f. satoshiToBitcoin ''0'' = Inr f"
  using satoshiToBitcoin_number[of 0] by (simp add: number_toString_0)

lemma foldl_txo_value:
  "foldl (\<lambda>sum output. sum + txo_value output) a outs = a + sum_list (map txo_value outs)"
  by (induction outs arbitrary: a) simp_all

lemma find_input_None:
  "find (\<lambda>input. case prevout input of None \<Rightarrow> False
                | Some p \<Rightarrow> scriptpubkey_address p = Some address) (vin tx) = None
     \<longleftrightarrow> \<not> spends_from address tx"
  by (auto simp: find_None_iff spends_from_def split: option.splits)

lemma find_output_None:
  "find (\<lambda>output. scriptpubkey_address output = Some address) (vout tx) = None
     \<longleftrightarrow> \<not> pays_to address tx"
  by (auto simp: find_None_iff pays_to_def)

lemma history_entry_send:
  assumes "spends_from address tx" and "\<not> pays_to address tx"
  shows "\<exists>e. history_entry address tx = Inr e \<and> tx_type e = Send \<and>
             tx_value e = number_toString (sum_list (map txo_value (vout tx)))"
proof -
  obtain f where "satoshiToBitcoin (number_toString (sum_list (map txo_value (vout tx)))) = Inr f"
    using satoshiToBitcoin_number by blast
  with assms show ?thesis
    unfolding history_entry_def Let_def find_input_None find_output_None
    by (simp add: foldl_txo_value)
qed

lemma history_entry_receive:
  assumes "\<not> spends_from address tx" and "pays_to address tx"
  shows "\<exists>e out. history_entry address tx = Inr e \<and> tx_type e = Receive \<and>
             find (\<lambda>output. scriptpubkey_address output = Some address) (vout tx) = Some out \<and>
             tx_value e = number_toString (txo_value out)"
proof -
  from assms(2) obtain out where
    out: "find (\<lambda>output. scriptpubkey_address output = Some address) (vout tx) = Some out"
    using find_output_None[of address tx] by auto
  obtain f where "satoshiToBitcoin (number_toString (txo_value out)) = Inr f"
    using satoshiToBitcoin_number by blast
  with assms out show ?thesis
    unfolding history_entry_def Let_def find_input_None
    by simp
qed

lemma history_entry_default:
  assumes "spends_from address tx \<longleftrightarrow> pays_to address tx"
  shows "\<exists>e. history_entry address tx = Inr e \<and> tx_type e = Send \<and> tx_value e = ''0''"
proof -
  obtain f where "satoshiToBitcoin ''0'' = Inr f"
    using satoshiToBitcoin_zero by blast
  with assms show ?thesis
    unfolding history_entry_def Let_def find_input_None find_output_None
    by (auto split: option.splits)
qed

lemma history_entry_returns: "\<exists>e. history_entry address tx = Inr e"
  using history_entry_send[of address tx] history_entry_receive[of address tx]
    history_entry_default[of address tx]
  by blast

lemma map_throwing_total:
  assumes "\<forall>x\<in>set xs. \<exists>y. f x = Inr y"
  shows "\<exists>ys. map_throwing f xs = Inr ys \<and> length ys = length xs \<and>
              (\<forall>i<length xs. f (xs ! i) = Inr (ys ! i))"
  using assms
proof (induction xs)
  case Nil
  then show ?case by simp
next
  case (Cons x xs)
  then obtain y ys where y: "f x = Inr y" and ys: "map_throwing f xs = Inr ys"
    "length ys = length xs" "\<forall>i<length xs. f (xs ! i) = Inr (ys ! i)"
    by auto
  have "\<forall>i<length (x # xs). f ((x # xs) ! i) = Inr ((y # ys) ! i)"
    using y ys(3) by (auto simp: nth_Cons split: nat.splits)
  with y ys show ?case by simp
qed


text \<open>
  C8. When the ledger request returns, \<open>getHistory\<close> returns one entry per
  transaction, in order, and for each transaction: if the address is among the spent
  inputs and not among the outputs, the entry is a send whose value is the sum of all
  output values; if it is among the outputs only, the entry is a receive whose value is
  the value of the (first) output of the address; if it is in both or in neither, the
  entry is a send with value \<open>0\<close>. Output sums are safe integers.
\<close>

theorem BitcoinProvider_getHistory_classification:
  assumes "client_get address ((pg - 1) * lim) lim = Inr txs"
    and "\<forall>tx\<in>set txs. sum_list (map txo_value (vout tx)) \<le> MAX_SAFE_INTEGER"
  shows "\<exists>entries.
     BitcoinProvider_getHistory client_get now address pg lim =
       \<lparr>success = True,
        data = Some \<lparr>history_assetId = ''bitcoin'', history_networkId = ''bitcoin'',
                     transactions = entries, history_total = length txs,
                     page = pg, limit = lim\<rparr>,
        error = None, timestamp = now\<rparr> \<and>
     length entries = length txs \<and>
     (\<forall>i<length txs.
        (spends_from address (txs ! i) \<and> \<not> pays_to address (txs ! i) \<longrightarrow>
           tx_type (entries ! i) = Send \<and>
           tx_value (entries ! i) =
             number_toString (sum_list (map txo_value (vout (txs ! i))))) \<and>
        (\<not> spends_from address (txs ! i) \<and> pays_to address (txs ! i) \<longrightarrow>
           tx_type (entries ! i) = Receive \<and>
           (\<exists>out. find (\<lambda>output. scriptpubkey_address output = Some address)
                    (vout (txs ! i)) = Some out \<and>
                  tx_value (entries ! i) = number_toString (txo_value out))) \<and>
        ((spends_from address (txs ! i) \<longleftrightarrow> pays_to address (txs ! i)) \<longrightarrow>
           tx_type (entries ! i) = Send \<and> tx_value (entries ! i) = ''0''))"
proof -
  have "\<forall>tx\<in>set txs. \<exists>e. history_entry address tx = Inr e"
    by (simp add: history_entry_returns)
  from map_throwing_total[OF this] obtain entries where
    m: "map_throwing (history_entry address) txs = Inr entries" and
    l: "length entries = length txs" and
    n: "\<forall>i<length txs. history_entry address (txs ! i) = Inr (entries ! i)"
    by blast
  have g: "BitcoinProvider_getHistory client_get now address pg lim =
       \<lparr>success = True,
        data = Some \<lparr>history_assetId = ''bitcoin'', history_networkId = ''bitcoin'',
                     transactions = entries, history_total = length txs,
                     page = pg, limit = lim\<rparr>,
        error = None, timestamp = now\<rparr>"
    by (simp add: BitcoinProvider_getHistory_def assms(1) m l)
  have c: "(spends_from address (txs ! i) \<and> \<not> pays_to address (txs ! i) \<longrightarrow>
           tx_type (entries ! i) = Send \<and>
           tx_value (entries ! i) =
             number_toString (sum_list (map txo_value (vout (txs ! i))))) \<and>
        (\<not> spends_from address (txs ! i) \<and> pays_to address (txs ! i) \<longrightarrow>
           tx_type (entries ! i) = Receive \<and>
           (\<exists>out. find (\<lambda>output. scriptpubkey_address output = Some address)
                    (vout (txs ! i)) = Some out \<and>
                  tx_value (entries ! i) = number_toString (txo_value out))) \<and>
        ((spends_from address (txs ! i) \<longleftrightarrow> pays_to address (txs ! i)) \<longrightarrow>
           tx_type (entries ! i) = Send \<and> tx_value (entries ! i) = ''0'')"
    if i: "i < length txs" for i
  proof -
    from n i have e: "history_entry address (txs ! i) = Inr (entries ! i)" by simp
    show ?thesis
      using history_entry_send[of address "txs ! i"]
        history_entry_receive[of address "txs ! i"]
        history_entry_default[of address "txs ! i"]
      by (auto simp: e)
  qed
  from g l c show ?thesis by blast
qed

theorem BitcoinProvider_getHistory_classification_witness:
  "sum_list (map txo_value (vout (example_history ! 0))) \<le> MAX_SAFE_INTEGER \<and>
   sum_list (map txo_value (vout (example_history ! 1))) \<le> MAX_SAFE_INTEGER \<and>
   sum_list (map txo_value (vout (example_history ! 2))) \<le> MAX_SAFE_INTEGER \<and>
   (\<exists>entries.
      BitcoinProvider_getHistory (\<lambda>a offset l. Inr example_history) 0 ''A'' 1 50 =
        \<lparr>success = True,
         data = Some \<lparr>history_assetId = ''bitcoin'', history_networkId = ''bitcoin'',
                      transactions = entries, history_total = 3, page = 1, limit = 50\<rparr>,
         error = None, timestamp = 0\<rparr> \<and>
      tx_type (entries ! 0) = Send \<and> tx_value (entries ! 0) = ''9'' \<and>
      tx_type (entries ! 1) = Receive \<and> tx_value (entries ! 1) = ''2'' \<and>
      tx_type (entries ! 2) = Send \<and> tx_value (entries ! 2) = ''0'')"
proof -
  let ?client = "\<lambda>(a::string) (offset::int) (l::int). (Inr example_history :: js_error + BitcoinTx list)"
  have c: "?client ''A'' ((1 - 1) * 50) 50 = Inr example_history" by simp
  have m: "\<forall>tx\<in>set example_history. sum_list (map txo_value (vout tx)) \<le> MAX_SAFE_INTEGER"
    by (simp add: example_history_def MAX_SAFE_INTEGER_def)
  have s: "spends_from ''A'' (example_history ! 0)" "\<not> pays_to ''A'' (example_history ! 0)"
    "\<not> spends_from ''A'' (example_history ! 1)" "pays_to ''A'' (example_history ! 1)"
    "spends_from ''A'' (example_history ! 2)" "pays_to ''A'' (example_history ! 2)"
    by (simp_all add: example_history_def spends_from_def pays_to_def)
  have v: "number_toString (sum_list (map txo_value (vout (example_history ! 0)))) = ''9''"
    "\<And>out. find (\<lambda>output. scriptpubkey_address output = Some ''A'')
             (vout (example_history ! 1)) = Some out \<Longrightarrow>
           number_toString (txo_value out) = ''2''"
    by (auto simp: example_history_def number_toString_def digits.simps digit_char_simps)
  have len: "length example_history = 3" by (simp add: example_history_def)
  from BitcoinProvider_getHistory_classification[OF c m, of 0]
  obtain entries where
    g: "BitcoinProvider_getHistory ?client 0 ''A'' 1 50 =
        \<lparr>success = True,
         data = Some \<lparr>history_assetId = ''bitcoin'', history_networkId = ''bitcoin'',
                      transactions = entries, history_total = length example_history,
                      page = 1, limit = 50\<rparr>,
         error = None, timestamp = 0\<rparr>"
    and a: "\<forall>i<length example_history.
        (spends_from ''A'' (example_history ! i) \<and> \<not> pays_to ''A'' (example_history ! i) \<longrightarrow>
           tx_type (entries ! i) = Send \<and>
           tx_value (entries ! i) =
             number_toString (sum_list (map txo_value (vout (example_history ! i))))) \<and>
        (\<not> spends_from ''A'' (example_history ! i) \<and> pays_to ''A'' (example_history ! i) \<longrightarrow>
           tx_type (entries ! i) = Receive \<and>
           (\<exists>out. find (\<lambda>output. scriptpubkey_address output = Some ''A'')
                    (vout (example_history ! i)) = Some out \<and>
                  tx_value (entries ! i) = number_toString (txo_value out))) \<and>
        ((spends_from ''A'' (example_history ! i) \<longleftrightarrow> pays_to ''A'' (example_history ! i)) \<longrightarrow>
           tx_type (entries ! i) = Send \<and> tx_value (entries ! i) = ''0'')"
    by blast
  from a[rule_format, of 0] s v len have e0: "tx_type (entries ! 0) = Send" "tx_value (entries ! 0) = ''9''"
    by simp_all
  from a[rule_format, of 1] s v(2) len have e1: "tx_type (entries ! 1) = Receive" "tx_value (entries ! 1) = ''2''"
    by auto
  from a[rule_format, of 2] s len have e2: "tx_type (entries ! 2) = Send" "tx_value (entries ! 2) = ''0''"
    by simp_all
  have m3: "sum_list (map txo_value (vout (example_history ! 0))) \<le> MAX_SAFE_INTEGER"
    "sum_list (map txo_value (vout (example_history ! 1))) \<le> MAX_SAFE_INTEGER"
    "sum_list (map txo_value (vout (example_history ! 2))) \<le> MAX_SAFE_INTEGER"
    by (simp_all add: example_history_def MAX_SAFE_INTEGER_def)
  from g e0 e1 e2 m3 len show ?thesis by auto
qed

section \<open>Dispatch and routing\<close>

lemma catch_error_simps:
  "catch_error h (l, Inl e) = (l, Inr (h e))"
  "catch_error h (l, Inr v) = (l, Inr v)"
  by (simp_all add: catch_error_def)

lemma well_formed_service_error: "well_formed (service_error c m now e)"
  by (simp add: well_formed_def service_error_def)

lemma well_formed_unsupported: "well_formed (unsupported c m now)"
  by (simp add: well_formed_def unsupported_def)

lemma getBalance_Inl:
  "parseAssetId aid = Inl e \<Longrightarrow>
   getBalance P now address aid =
     ([], Inr (service_error ''BALANCE_SERVICE_ERROR'' ''Failed to get balance'' now e))"
  by (simp add: getBalance_def getBalance_try_def throw_def catch_error_simps)

lemma getBalance_Inr:
  "parseAssetId aid = Inr info \<Longrightarrow>
   getBalance P now address aid =
     ([if atype info = Bitcoin then Bitcoin_getBalance address
       else Alchemy_getBalance address aid],
      case balance_source P address aid info of
        Inl e \<Rightarrow> Inr (service_error ''BALANCE_SERVICE_ERROR'' ''Failed to get balance'' now e)
      | Inr r \<Rightarrow> Inr r)"
  by (simp add: getBalance_def getBalance_try_def call_def catch_error_def balance_source_def
      split: sum.splits)

lemma getBalance_resolves:
  "snd (getBalance P now address aid) = Inr (balance_envelope P now address aid)"
  by (cases "parseAssetId aid")
     (simp_all add: getBalance_Inl getBalance_Inr balance_envelope_def split: sum.splits)

lemma getHistory_Inl:
  "parseAssetId aid = Inl e \<Longrightarrow>
   getHistory P now address aid pg lim =
     ([], Inr (service_error ''HISTORY_SERVICE_ERROR''
                 ''Failed to get transaction history'' now e))"
  by (simp add: getHistory_def getHistory_try_def throw_def catch_error_simps)

lemma getHistory_Inr:
  "parseAssetId aid = Inr info \<Longrightarrow>
   getHistory P now address aid pg lim =
     ([if atype info = Bitcoin then Bitcoin_getHistory address pg lim
       else Alchemy_getHistory address aid pg lim],
      case history_source P address aid pg lim info of
        Inl e \<Rightarrow> Inr (service_error ''HISTORY_SERVICE_ERROR''
                        ''Failed to get transaction history'' now e)
      | Inr r \<Rightarrow> Inr r)"
  by (simp add: getHistory_def getHistory_try_def call_def catch_error_def history_source_def
      split: sum.splits)

lemma getGas_bitcoin:
  "getGas P now ''bitcoin'' ty =
     ([], Inr (unsupported ''UNSUPPORTED_NETWORK'' ''Gas price not applicable for Bitcoin'' now))"
  by (simp add: getGas_def getGas_try_def return_def catch_error_simps)

lemma getGas_other:
  "nid \<noteq> ''bitcoin'' \<Longrightarrow>
   getGas P now nid ty =
     ([Alchemy_getGas nid ty],
      case alchemy_getGas P nid ty of
        Inl e \<Rightarrow> Inr (service_error ''GAS_SERVICE_ERROR'' ''Failed to get gas price'' now e)
      | Inr r \<Rightarrow> Inr r)"
  by (simp add: getGas_def getGas_try_def call_def catch_error_def split: sum.splits)

lemma parse_bitcoin:
  "parseAssetId ''bitcoin'' =
     Inr \<lparr>assetId = ''bitcoin'', networkId = NetworkId ''bitcoin'', contractAddress = None,
          tokenId = None, atype = Bitcoin\<rparr>"
  by (simp add: parseAssetId_def)

lemma parse_ethereum:
  "parseAssetId ''ethereum'' =
     Inr \<lparr>assetId = ''ethereum'', networkId = NetworkId ''ethereum'', contractAddress = None,
          tokenId = None, atype = Native\<rparr>"
  by (simp add: parseAssetId_def)

text \<open>
  C6. \<open>getBalance\<close> and \<open>getHistory\<close> make exactly one provider call when the
  identifier parses: to the Bitcoin provider when the parsed type is bitcoin, to the EVM
  provider otherwise, and they resolve to what that call returns; when the identifier
  does not parse they call no provider. \<open>getGas\<close> on network \<open>bitcoin\<close> calls no
  provider and resolves to a failure envelope with code \<open>UNSUPPORTED_NETWORK\<close>.
\<close>

theorem dispatch_routing:
  "(\<forall>info. parseAssetId aid = Inr info \<longrightarrow> atype info = Bitcoin \<longrightarrow>
      fst (getBalance P now address aid) = [Bitcoin_getBalance address] \<and>
      (\<forall>r. bitcoin_getBalance P address = Inr r \<longrightarrow>
           snd (getBalance P now address aid) = Inr r) \<and>
      fst (getHistory P now address aid pg lim) = [Bitcoin_getHistory address pg lim] \<and>
      (\<forall>r. bitcoin_getHistory P address pg lim = Inr r \<longrightarrow>
           snd (getHistory P now address aid pg lim) = Inr r)) \<and>
   (\<forall>info. parseAssetId aid = Inr info \<longrightarrow> atype info \<noteq> Bitcoin \<longrightarrow>
      fst (getBalance P now address aid) = [Alchemy_getBalance address aid] \<and>
      (\<forall>r. alchemy_getBalance P address aid = Inr r \<longrightarrow>
           snd (getBalance P now address aid) = Inr r) \<and>
      fst (getHistory P now address aid pg lim) = [Alchemy_getHistory address aid pg lim] \<and>
      (\<forall>r. alchemy_getHistory P address aid pg lim = Inr r \<longrightarrow>
           snd (getHistory P now address aid pg lim) = Inr r)) \<and>
   (\<forall>e. parseAssetId aid = Inl e \<longrightarrow>
      fst (getBalance P now address aid) = [] \<and>
      fst (getHistory P now address aid pg lim) = []) \<and>
   fst (getBalance P now address ''bitcoin'') = [Bitcoin_getBalance address] \<and>
   fst (getBalance P now address ''ethereum'') = [Alchemy_getBalance address ''ethereum''] \<and>
   getGas P now ''bitcoin'' ty =
     ([], Inr \<lparr>success = False, data = None,
               error = Some \<lparr>code = ''UNSUPPORTED_NETWORK'',
                             message = ''Gas price not applicable for Bitcoin'',
                             details = DetailsNull\<rparr>,
               timestamp = now\<rparr>)"
proof -
  have b: "fst (getBalance P now address ''bitcoin'') = [Bitcoin_getBalance address]"
    by (simp add: getBalance_Inr[OF parse_bitcoin])
  have e: "fst (getBalance P now address ''ethereum'') = [Alchemy_getBalance address ''ethereum'']"
    by (simp add: getBalance_Inr[OF parse_ethereum])
  have g: "getGas P now ''bitcoin'' ty =
     ([], Inr \<lparr>success = False, data = None,
               error = Some \<lparr>code = ''UNSUPPORTED_NETWORK'',
                             message = ''Gas price not applicable for Bitcoin'',
                             details = DetailsNull\<rparr>,
               timestamp = now\<rparr>)"
    by (simp add: getGas_bitcoin unsupported_def)
  show ?thesis
    by (intro conjI allI impI b e g)
       (simp_all add: getBalance_Inr getBalance_Inl getHistory_Inr getHistory_Inl
          balance_source_def history_source_def)
qed

theorem dispatch_routing_witness:
  "parseAssetId ''bip122:000000000019d6689c085ae165831e93/slip44:0'' =
     Inr \<lparr>assetId = ''bip122:000000000019d6689c085ae165831e93/slip44:0'',
          networkId = NetworkId ''bitcoin'', contractAddress = None, tokenId = None,
          atype = Bitcoin\<rparr> \<and>
   bitcoin_getBalance example_providers ''addr'' = Inr example_failure \<and>
   getBalance example_providers 0 ''addr''
       ''bip122:000000000019d6689c085ae165831e93/slip44:0'' =
     ([Bitcoin_getBalance ''addr''], Inr example_failure) \<and>
   parseAssetId ''ethereum:0xabc'' =
     Inr \<lparr>assetId = ''ethereum:0xabc'', networkId = NetworkId ''ethereum'',
          contractAddress = Some ''0xabc'', tokenId = None, atype = Erc20\<rparr> \<and>
   fst (getBalance example_providers 0 ''addr'' ''ethereum:0xabc'') =
     [Alchemy_getBalance ''addr'' ''ethereum:0xabc''] \<and>
   parseAssetId ''a:b:c:d'' = Inl (Error ''Invalid assetId format: a:b:c:d'') \<and>
   fst (getHistory example_providers 0 ''addr'' ''a:b:c:d'' 1 50) = []"
proof -
  let ?c = "''bip122:000000000019d6689c085ae165831e93/slip44:0''"
  have p1: "parseAssetId ?c =
     Inr \<lparr>assetId = ?c, networkId = NetworkId ''bitcoin'', contractAddress = None,
          tokenId = None, atype = Bitcoin\<rparr>"
    by (simp add: parseAssetId_def parseCAIPAssetId_def js_index_def Let_def)
  have p2: "parseAssetId ''ethereum:0xabc'' =
     Inr \<lparr>assetId = ''ethereum:0xabc'', networkId = NetworkId ''ethereum'',
          contractAddress = Some ''0xabc'', tokenId = None, atype = Erc20\<rparr>"
    by (simp add: parseAssetId_def Let_def)
  have p3: "parseAssetId ''a:b:c:d'' = Inl (Error ''Invalid assetId format: a:b:c:d'')"
    by (simp add: parseAssetId_def Let_def)
  have f: "bitcoin_getBalance example_providers ''addr'' = Inr example_failure"
    by (simp add: example_providers_def)
  have 1: "getBalance example_providers 0 ''addr'' ?c =
     ([Bitcoin_getBalance ''addr''], Inr example_failure)"
    using dispatch_routing[of ?c example_providers 0 "''addr''" 1 50 Eip1559] p1 f
    by (simp add: prod_eq_iff)
  have 2: "fst (getBalance example_providers 0 ''addr'' ''ethereum:0xabc'') =
     [Alchemy_getBalance ''addr'' ''ethereum:0xabc'']"
    using dispatch_routing[of "''ethereum:0xabc''" example_providers 0 "''addr''" 1 50 Eip1559] p2
    by simp
  have 3: "fst (getHistory example_providers 0 ''addr'' ''a:b:c:d'' 1 50) = []"
    using dispatch_routing[of "''a:b:c:d''" example_providers 0 "''addr''" 1 50 Eip1559] p3
    by simp
  from p1 p2 p3 f 1 2 3 show ?thesis by simp
qed

section \<open>Envelopes and failure handling\<close>

lemma getPrice_resolves:
  "snd (getPrice P now aid cur) =
     (case coingecko_getPrice P aid cur of
        Inl e \<Rightarrow> Inr (service_error ''PRICE_SERVICE_ERROR'' ''Failed to get price'' now e)
      | Inr r \<Rightarrow> Inr r)"
  by (simp add: getPrice_def getPrice_try_def call_def catch_error_def split: sum.splits)

lemma getPriceHistory_resolves:
  "snd (getPriceHistory P now aid days cur) =
     (case coingecko_getPriceHistory P aid days cur of
        Inl e \<Rightarrow> Inr (service_error ''PRICE_HISTORY_SERVICE_ERROR''
                        ''Failed to get price history'' now e)
      | Inr r \<Rightarrow> Inr r)"
  by (simp add: getPriceHistory_def getPriceHistory_try_def call_def catch_error_def
      split: sum.splits)

lemma getNftOwners_resolves:
  "snd (getNftOwners P now contract nid token) =
     (if nid = ''bitcoin''
        then Inr (unsupported ''UNSUPPORTED_NETWORK'' ''NFTs not supported on Bitcoin'' now)
      else (case alchemy_getNftOwners P contract nid token of
              Inl e \<Rightarrow> Inr (service_error ''NFT_OWNERS_SERVICE_ERROR''
                              ''Failed to get NFT owners'' now e)
            | Inr r \<Rightarrow> Inr r))"
  by (simp add: getNftOwners_def getNftOwners_try_def call_def return_def catch_error_def
      split: sum.splits)

lemma getNftsForOwner_resolves:
  "snd (getNftsForOwner P now owner nid contract) =
     (if nid = ''bitcoin''
        then Inr (unsupported ''UNSUPPORTED_NETWORK'' ''NFTs not supported on Bitcoin'' now)
      else (case alchemy_getNftsForOwner P owner nid contract of
              Inl e \<Rightarrow> Inr (service_error ''NFTS_FOR_OWNER_SERVICE_ERROR''
                              ''Failed to fetch NFTs for owner'' now e)
            | Inr r \<Rightarrow> Inr r))"
  by (simp add: getNftsForOwner_def getNftsForOwner_try_def call_def return_def
      catch_error_def split: sum.splits)

lemma getTokenMetadata_resolves:
  "snd (getTokenMetadata P now aid) =
     (case parseAssetId aid of
        Inl e \<Rightarrow> Inr (service_error ''TOKEN_METADATA_SERVICE_ERROR''
                        ''Failed to get token metadata'' now e)
      | Inr info \<Rightarrow>
          if atype info = Bitcoin
            then Inr \<lparr>success = True, data = Some bitcoin_metadata, error = None,
                      timestamp = now\<rparr>
          else (case alchemy_getTokenMetadata P aid of
                  Inl e \<Rightarrow> Inr (service_error ''TOKEN_METADATA_SERVICE_ERROR''
                                  ''Failed to get token metadata'' now e)
                | Inr r \<Rightarrow> Inr r))"
  by (simp add: getTokenMetadata_def getTokenMetadata_try_def call_def return_def throw_def
      catch_error_def split: sum.splits)

lemma getNftMetadata_resolves:
  "snd (getNftMetadata P now aid) =
     (case parseAssetId aid of
        Inl e \<Rightarrow> Inr (service_error ''NFT_METADATA_SERVICE_ERROR''
                        ''Failed to get NFT metadata'' now e)
      | Inr info \<Rightarrow>
          if atype info = Bitcoin
            then Inr (unsupported ''UNSUPPORTED_ASSET_TYPE''
                        ''NFTs not supported on Bitcoin'' now)
          else (case alchemy_getNftMetadata P aid of
                  Inl e \<Rightarrow> Inr (service_error ''NFT_METADATA_SERVICE_ERROR''
                                  ''Failed to get NFT metadata'' now e)
                | Inr r \<Rightarrow> Inr r))"
  by (simp add: getNftMetadata_def getNftMetadata_try_def call_def return_def throw_def
      catch_error_def split: sum.splits)

lemma getMultiplePrices_resolves:
  "snd (getMultiplePrices P now assetIds cur) =
     (case coingecko_getMultiplePrices P assetIds cur of
        Inl e \<Rightarrow> Inr (service_error ''MULTIPLE_PRICES_SERVICE_ERROR''
                        ''Failed to get multiple prices'' now e)
      | Inr r \<Rightarrow> Inr r)"
  by (simp add: getMultiplePrices_def getMultiplePrices_try_def call_def catch_error_def
      split: sum.splits)

lemma promise_all_Inr: "promise_all (map (\<lambda>x. Inr (f x)) xs) = Inr (map f xs)"
  by (induction xs) simp_all

lemma getMultipleBalances_resolves:
  "snd (getMultipleBalances P now address assetIds) =
     Inr \<lparr>success = True,
          data = Some (foldl store_balance Map.empty
                         (zip assetIds (map (balance_envelope P now address) assetIds))),
          error = None, timestamp = now\<rparr>"
proof -
  have "map snd (map (\<lambda>aid. getBalance P now address aid) assetIds) =
          map (\<lambda>aid. Inr (balance_envelope P now address aid)) assetIds"
    by (simp add: getBalance_resolves)
  then have "promise_all (map snd (map (\<lambda>aid. getBalance P now address aid) assetIds)) =
          Inr (map (balance_envelope P now address) assetIds)"
    by (simp only: promise_all_Inr)
  then show ?thesis
    by (simp add: getMultipleBalances_def getMultipleBalances_try_def Let_def catch_error_def)
qed

lemma getPortfolioSummary_cases:
  "(\<exists>e. snd (getPortfolioSummary ops P now address assetIds cur) =
          Inr (service_error ''PORTFOLIO_SUMMARY_SERVICE_ERROR''
                 ''Failed to get portfolio summary'' now e)) \<or>
   (\<exists>s. snd (getPortfolioSummary ops P now address assetIds cur) =
          Inr \<lparr>success = True, data = Some s, error = None, timestamp = now\<rparr>)"
  by (auto simp: getPortfolioSummary_def getPortfolioSummary_try_def Let_def catch_error_def
      promise_all2_def split: sum.splits prod.splits)

lemma well_formed_balance_source:
  "providers_well_formed P \<Longrightarrow> balance_source P address aid info = Inr r \<Longrightarrow> well_formed r"
  by (auto simp: providers_well_formed_def balance_source_def split: if_splits)

lemma well_formed_history_source:
  "providers_well_formed P \<Longrightarrow> history_source P address aid pg lim info = Inr r \<Longrightarrow>
   well_formed r"
  by (auto simp: providers_well_formed_def history_source_def split: if_splits)

lemma well_formed_balance_envelope:
  "providers_well_formed P \<Longrightarrow> well_formed (balance_envelope P now address aid)"
  by (auto simp: balance_envelope_def well_formed_service_error
      dest: well_formed_balance_source split: sum.splits)

lemma getHistory_well_formed:
  assumes "providers_well_formed P"
  shows "\<exists>r. snd (getHistory P now address aid pg lim) = Inr r \<and> well_formed r"
proof (cases "parseAssetId aid")
  case (Inl e)
  then show ?thesis by (simp add: getHistory_Inl well_formed_service_error)
next
  case (Inr info)
  then show ?thesis
    using well_formed_history_source[OF assms, of address aid pg lim info]
    by (cases "history_source P address aid pg lim info")
       (simp_all add: getHistory_Inr well_formed_service_error)
qed

lemma getGas_well_formed:
  assumes "providers_well_formed P"
  shows "\<exists>r. snd (getGas P now nid ty) = Inr r \<and> well_formed r"
proof (cases "nid = ''bitcoin''")
  case True
  then show ?thesis by (simp add: getGas_bitcoin well_formed_unsupported)
next
  case False
  from assms have "\<And>r. alchemy_getGas P nid ty = Inr r \<Longrightarrow> well_formed r"
    by (simp add: providers_well_formed_def)
  with False show ?thesis
    by (cases "alchemy_getGas P nid ty") (simp_all add: getGas_other well_formed_service_error)
qed

lemma getPrice_well_formed:
  assumes "providers_well_formed P"
  shows "\<exists>r. snd (getPrice P now aid cur) = Inr r \<and> well_formed r"
proof -
  from assms have "\<And>r. coingecko_getPrice P aid cur = Inr r \<Longrightarrow> well_formed r"
    by (simp add: providers_well_formed_def)
  then show ?thesis
    by (cases "coingecko_getPrice P aid cur")
       (simp_all add: getPrice_resolves well_formed_service_error)
qed

lemma getPriceHistory_well_formed:
  assumes "providers_well_formed P"
  shows "\<exists>r. snd (getPriceHistory P now aid days cur) = Inr r \<and> well_formed r"
proof -
  from assms have "\<And>r. coingecko_getPriceHistory P aid days cur = Inr r \<Longrightarrow> well_formed r"
    by (simp add: providers_well_formed_def)
  then show ?thesis
    by (cases "coingecko_getPriceHistory P aid days cur")
       (simp_all add: getPriceHistory_resolves well_formed_service_error)
qed

lemma getNftOwners_well_formed:
  assumes "providers_well_formed P"
  shows "\<exists>r. snd (getNftOwners P now contract nid token) = Inr r \<and> well_formed r"
proof -
  from assms have "\<And>r. alchemy_getNftOwners P contract nid token = Inr r \<Longrightarrow> well_formed r"
    by (simp add: providers_well_formed_def)
  then show ?thesis
    by (cases "alchemy_getNftOwners P contract nid token")
       (simp_all add: getNftOwners_resolves well_formed_service_error well_formed_unsupported)
qed

lemma getNftsForOwner_well_formed:
  assumes "providers_well_formed P"
  shows "\<exists>r. snd (getNftsForOwner P now owner nid contract) = Inr r \<and> well_formed r"
proof -
  from assms have "\<And>r. alchemy_getNftsForOwner P owner nid contract = Inr r \<Longrightarrow> well_formed r"
    by (simp add: providers_well_formed_def)
  then show ?thesis
    by (cases "alchemy_getNftsForOwner P owner nid contract")
       (simp_all add: getNftsForOwner_resolves well_formed_service_error
          well_formed_unsupported)
qed

lemma getTokenMetadata_well_formed:
  assumes "providers_well_formed P"
  shows "\<exists>r. snd (getTokenMetadata P now aid) = Inr r \<and> well_formed r"
proof -
  from assms have "\<And>r. alchemy_getTokenMetadata P aid = Inr r \<Longrightarrow> well_formed r"
    by (simp add: providers_well_formed_def)
  moreover have "well_formed \<lparr>success = True, data = Some bitcoin_metadata, error = None,
                      timestamp = now\<rparr>"
    by (simp add: well_formed_def)
  ultimately show ?thesis
    by (cases "parseAssetId aid"; cases "alchemy_getTokenMetadata P aid")
       (simp_all add: getTokenMetadata_resolves well_formed_service_error)
qed

lemma getNftMetadata_well_formed:
  assumes "providers_well_formed P"
  shows "\<exists>r. snd (getNftMetadata P now aid) = Inr r \<and> well_formed r"
proof -
  from assms have "\<And>r. alchemy_getNftMetadata P aid = Inr r \<Longrightarrow> well_formed r"
    by (simp add: providers_well_formed_def)
  then show ?thesis
    by (cases "parseAssetId aid"; cases "alchemy_getNftMetadata P aid")
       (simp_all add: getNftMetadata_resolves well_formed_service_error
          well_formed_unsupported)
qed

lemma getMultiplePrices_well_formed:
  assumes "providers_well_formed P"
  shows "\<exists>r. snd (getMultiplePrices P now assetIds cur) = Inr r \<and> well_formed r"
proof -
  from assms have "\<And>r. coingecko_getMultiplePrices P assetIds cur = Inr r \<Longrightarrow> well_formed r"
    by (simp add: providers_well_formed_def)
  then show ?thesis
    by (cases "coingecko_getMultiplePrices P assetIds cur")
       (simp_all add: getMultiplePrices_resolves well_formed_service_error)
qed

lemma getMultipleBalances_well_formed:
  "\<exists>r. snd (getMultipleBalances P now address assetIds) = Inr r \<and> well_formed r"
  by (simp add: getMultipleBalances_resolves well_formed_def)

lemma getPortfolioSummary_well_formed:
  "\<exists>r. snd (getPortfolioSummary ops P now address assetIds cur) = Inr r \<and> well_formed r"
proof -
  have "well_formed \<lparr>success = True, data = Some s, error = None, timestamp = now\<rparr>"
    for s :: "'a PortfolioSummary"
    by (simp add: well_formed_def)
  then show ?thesis
    using getPortfolioSummary_cases[of ops P now address assetIds cur]
    by (auto simp: well_formed_service_error)
qed

lemma service_error_failure:
  "\<not> success (service_error c m now e) \<and> data (service_error c m now e) = None \<and>
   map_option code (error (service_error c m now e)) = Some c"
  by (simp add: service_error_def)

text \<open>
  C7. Every operation of the service resolves to an envelope and never rejects. When the
  envelopes the providers return are well-formed, so is the envelope of every operation:
  exactly one of \<open>data\<close> and \<open>error\<close>, and \<open>data\<close> exactly when \<open>success\<close>. An error
  thrown by the parse step or by the provider call becomes the failure envelope with the
  code of the operation, which has \<open>success\<close> false and no \<open>data\<close>.
\<close>

theorem dispatcher_returns_envelopes:
  assumes "providers_well_formed P"
  shows
   "(\<exists>r. snd (getBalance P now address aid) = Inr r \<and> well_formed r) \<and>
    (\<exists>r. snd (getGas P now nid ty) = Inr r \<and> well_formed r) \<and>
    (\<exists>r. snd (getPrice P now aid cur) = Inr r \<and> well_formed r) \<and>
    (\<exists>r. snd (getPriceHistory P now aid days cur) = Inr r \<and> well_formed r) \<and>
    (\<exists>r. snd (getHistory P now address aid pg lim) = Inr r \<and> well_formed r) \<and>
    (\<exists>r. snd (getNftOwners P now contract nid token) = Inr r \<and> well_formed r) \<and>
    (\<exists>r. snd (getNftsForOwner P now owner nid contract_opt) = Inr r \<and> well_formed r) \<and>
    (\<exists>r. snd (getTokenMetadata P now aid) = Inr r \<and> well_formed r) \<and>
    (\<exists>r. snd (getNftMetadata P now aid) = Inr r \<and> well_formed r) \<and>
    (\<exists>r. snd (getMultipleBalances P now address assetIds) = Inr r \<and> well_formed r) \<and>
    (\<exists>r. snd (getMultiplePrices P now assetIds cur) = Inr r \<and> well_formed r) \<and>
    (\<exists>r. snd (getPortfolioSummary ops P now address assetIds cur) = Inr r \<and>
         well_formed r) \<and>
    (\<forall>e. parseAssetId aid = Inl e \<longrightarrow>
       snd (getBalance P now address aid) =
         Inr (service_error ''BALANCE_SERVICE_ERROR'' ''Failed to get balance'' now e) \<and>
       snd (getHistory P now address aid pg lim) =
         Inr (service_error ''HISTORY_SERVICE_ERROR''
                ''Failed to get transaction history'' now e) \<and>
       snd (getTokenMetadata P now aid) =
         Inr (service_error ''TOKEN_METADATA_SERVICE_ERROR''
                ''Failed to get token metadata'' now e) \<and>
       snd (getNftMetadata P now aid) =
         Inr (service_error ''NFT_METADATA_SERVICE_ERROR''
                ''Failed to get NFT metadata'' now e)) \<and>
    (\<forall>info e. parseAssetId aid = Inr info \<longrightarrow>
       (balance_source P address aid info = Inl e \<longrightarrow>
          snd (getBalance P now address aid) =
            Inr (service_error ''BALANCE_SERVICE_ERROR'' ''Failed to get balance'' now e)) \<and>
       (history_source P address aid pg lim info = Inl e \<longrightarrow>
          snd (getHistory P now address aid pg lim) =
            Inr (service_error ''HISTORY_SERVICE_ERROR''
                   ''Failed to get transaction history'' now e)) \<and>
       (atype info \<noteq> Bitcoin \<longrightarrow> alchemy_getTokenMetadata P aid = Inl e \<longrightarrow>
          snd (getTokenMetadata P now aid) =
            Inr (service_error ''TOKEN_METADATA_SERVICE_ERROR''
                   ''Failed to get token metadata'' now e)) \<and>
       (atype info \<noteq> Bitcoin \<longrightarrow> alchemy_getNftMetadata P aid = Inl e \<longrightarrow>
          snd (getNftMetadata P now aid) =
            Inr (service_error ''NFT_METADATA_SERVICE_ERROR''
                   ''Failed to get NFT metadata'' now e))) \<and>
    (\<forall>e. nid \<noteq> ''bitcoin'' \<longrightarrow>
       (alchemy_getGas P nid ty = Inl e \<longrightarrow>
          snd (getGas P now nid ty) =
            Inr (service_error ''GAS_SERVICE_ERROR'' ''Failed to get gas price'' now e)) \<and>
       (alchemy_getNftOwners P contract nid token = Inl e \<longrightarrow>
          snd (getNftOwners P now contract nid token) =
            Inr (service_error ''NFT_OWNERS_SERVICE_ERROR''
                   ''Failed to get NFT owners'' now e)) \<and>
       (alchemy_getNftsForOwner P owner nid contract_opt = Inl e \<longrightarrow>
          snd (getNftsForOwner P now owner nid contract_opt) =
            Inr (service_error ''NFTS_FOR_OWNER_SERVICE_ERROR''
                   ''Failed to fetch NFTs for owner'' now e))) \<and>
    (\<forall>e.
       (coingecko_getPrice P aid cur = Inl e \<longrightarrow>
          snd (getPrice P now aid cur) =
            Inr (service_error ''PRICE_SERVICE_ERROR'' ''Failed to get price'' now e)) \<and>
       (coingecko_getPriceHistory P aid days cur = Inl e \<longrightarrow>
          snd (getPriceHistory P now aid days cur) =
            Inr (service_error ''PRICE_HISTORY_SERVICE_ERROR''
                   ''Failed to get price history'' now e)) \<and>
       (coingecko_getMultiplePrices P assetIds cur = Inl e \<longrightarrow>
          snd (getMultiplePrices P now assetIds cur) =
            Inr (service_error ''MULTIPLE_PRICES_SERVICE_ERROR''
                   ''Failed to get multiple prices'' now e))) \<and>
    (\<forall>c m e. \<not> success (service_error c m now e :: BalanceResponse ApiResponse) \<and>
       data (service_error c m now e :: BalanceResponse ApiResponse) = None \<and>
       map_option code (error (service_error c m now e :: BalanceResponse ApiResponse)) =
         Some c)"
proof -
  have 1: "\<exists>r. snd (getBalance P now address aid) = Inr r \<and> well_formed r"
    by (simp add: getBalance_resolves well_formed_balance_envelope[OF assms])
  note wf = 1 getGas_well_formed[OF assms] getPrice_well_formed[OF assms]
    getPriceHistory_well_formed[OF assms] getHistory_well_formed[OF assms]
    getNftOwners_well_formed[OF assms] getNftsForOwner_well_formed[OF assms]
    getTokenMetadata_well_formed[OF assms] getNftMetadata_well_formed[OF assms]
    getMultipleBalances_well_formed getMultiplePrices_well_formed[OF assms]
    getPortfolioSummary_well_formed
  have parse_fails: "snd (getBalance P now address aid) =
         Inr (service_error ''BALANCE_SERVICE_ERROR'' ''Failed to get balance'' now e) \<and>
       snd (getHistory P now address aid pg lim) =
         Inr (service_error ''HISTORY_SERVICE_ERROR''
                ''Failed to get transaction history'' now e) \<and>
       snd (getTokenMetadata P now aid) =
         Inr (service_error ''TOKEN_METADATA_SERVICE_ERROR''
                ''Failed to get token metadata'' now e) \<and>
       snd (getNftMetadata P now aid) =
         Inr (service_error ''NFT_METADATA_SERVICE_ERROR''
                ''Failed to get NFT metadata'' now e)"
    if "parseAssetId aid = Inl e" for e
    using that
    by (simp add: getBalance_Inl getHistory_Inl getTokenMetadata_resolves
        getNftMetadata_resolves)
  have parse_ok: "(balance_source P address aid info = Inl e \<longrightarrow>
          snd (getBalance P now address aid) =
            Inr (service_error ''BALANCE_SERVICE_ERROR'' ''Failed to get balance'' now e)) \<and>
       (history_source P address aid pg lim info = Inl e \<longrightarrow>
          snd (getHistory P now address aid pg lim) =
            Inr (service_error ''HISTORY_SERVICE_ERROR''
                   ''Failed to get transaction history'' now e)) \<and>
       (atype info \<noteq> Bitcoin \<longrightarrow> alchemy_getTokenMetadata P aid = Inl e \<longrightarrow>
          snd (getTokenMetadata P now aid) =
            Inr (service_error ''TOKEN_METADATA_SERVICE_ERROR''
                   ''Failed to get token metadata'' now e)) \<and>
       (atype info \<noteq> Bitcoin \<longrightarrow> alchemy_getNftMetadata P aid = Inl e \<longrightarrow>
          snd (getNftMetadata P now aid) =
            Inr (service_error ''NFT_METADATA_SERVICE_ERROR''
                   ''Failed to get NFT metadata'' now e))"
    if "parseAssetId aid = Inr info" for info e
    using that
    by (simp add: getBalance_Inr getHistory_Inr getTokenMetadata_resolves
        getNftMetadata_resolves)
  have evm: "(alchemy_getGas P nid ty = Inl e \<longrightarrow>
          snd (getGas P now nid ty) =
            Inr (service_error ''GAS_SERVICE_ERROR'' ''Failed to get gas price'' now e)) \<and>
       (alchemy_getNftOwners P contract nid token = Inl e \<longrightarrow>
          snd (getNftOwners P now contract nid token) =
            Inr (service_error ''NFT_OWNERS_SERVICE_ERROR''
                   ''Failed to get NFT owners'' now e)) \<and>
       (alchemy_getNftsForOwner P owner nid contract_opt = Inl e \<longrightarrow>
          snd (getNftsForOwner P now owner nid contract_opt) =
            Inr (service_error ''NFTS_FOR_OWNER_SERVICE_ERROR''
                   ''Failed to fetch NFTs for owner'' now e))"
    if "nid \<noteq> ''bitcoin''" for e
    using that
    by (simp add: getGas_other getNftOwners_resolves getNftsForOwner_resolves)
  have prices: "(coingecko_getPrice P aid cur = Inl e \<longrightarrow>
          snd (getPrice P now aid cur) =
            Inr (service_error ''PRICE_SERVICE_ERROR'' ''Failed to get price'' now e)) \<and>
       (coingecko_getPriceHistory P aid days cur = Inl e \<longrightarrow>
          snd (getPriceHistory P now aid days cur) =
            Inr (service_error ''PRICE_HISTORY_SERVICE_ERROR''
                   ''Failed to get price history'' now e)) \<and>
       (coingecko_getMultiplePrices P assetIds cur = Inl e \<longrightarrow>
          snd (getMultiplePrices P now assetIds cur) =
            Inr (service_error ''MULTIPLE_PRICES_SERVICE_ERROR''
                   ''Failed to get multiple prices'' now e))" for e
    by (simp add: getPrice_resolves getPriceHistory_resolves getMultiplePrices_resolves)
  show ?thesis
    by (intro conjI allI impI wf service_error_failure[THEN conjunct1]
        service_error_failure[THEN conjunct2, THEN conjunct1]
        service_error_failure[THEN conjunct2, THEN conjunct2])
       (use parse_fails parse_ok evm prices in blast)+
qed

lemma example_providers_well_formed: "providers_well_formed example_providers"
  by (simp add: providers_well_formed_def example_providers_def well_formed_def
      example_failure_def)

theorem dispatcher_returns_envelopes_witness:
  "parseAssetId ''a:b:c:d'' = Inl (Error ''Invalid assetId format: a:b:c:d'') \<and>
   snd (getBalance example_providers 0 ''addr'' ''a:b:c:d'') =
     Inr (service_error ''BALANCE_SERVICE_ERROR'' ''Failed to get balance'' 0
            (Error ''Invalid assetId format: a:b:c:d'')) \<and>
   alchemy_getGas example_providers ''ethereum'' Eip1559 = Inl unavailable \<and>
   snd (getGas example_providers 0 ''ethereum'' Eip1559) =
     Inr (service_error ''GAS_SERVICE_ERROR'' ''Failed to get gas price'' 0 unavailable) \<and>
   (\<exists>r. snd (getPortfolioSummary example_ops example_providers 0 ''addr''
              [''bitcoin'', ''ethereum''] ''usd'') = Inr r \<and> well_formed r)"
proof -
  have p: "parseAssetId ''a:b:c:d'' = Inl (Error ''Invalid assetId format: a:b:c:d'')"
    by (simp add: parseAssetId_def Let_def)
  have g: "alchemy_getGas example_providers ''ethereum'' Eip1559 = Inl unavailable"
    by (simp add: example_providers_def)
  have n: "''ethereum'' \<noteq> ''bitcoin''" by simp
  note t = dispatcher_returns_envelopes[OF example_providers_well_formed,
      where now = 0 and address = "''addr''" and aid = "''a:b:c:d''" and nid = "''ethereum''"
        and ty = Eip1559 and cur = "''usd''" and days = 7 and pg = 1 and lim = 50
        and contract = "''0xabc''" and token = None and owner = "''addr''"
        and contract_opt = None and assetIds = "[''bitcoin'', ''ethereum'']"
        and ops = example_ops]
  from t p have 1: "snd (getBalance example_providers 0 ''addr'' ''a:b:c:d'') =
     Inr (service_error ''BALANCE_SERVICE_ERROR'' ''Failed to get balance'' 0
            (Error ''Invalid assetId format: a:b:c:d''))"
    by blast
  from t g n have 2: "snd (getGas example_providers 0 ''ethereum'' Eip1559) =
     Inr (service_error ''GAS_SERVICE_ERROR'' ''Failed to get gas price'' 0 unavailable)"
    by blast
  from t have 3: "\<exists>r. snd (getPortfolioSummary example_ops example_providers 0 ''addr''
              [''bitcoin'', ''ethereum''] ''usd'') = Inr r \<and> well_formed r"
    by blast
  from p g 1 2 3 show ?thesis by blast
qed

section \<open>Operations that join several calls\<close>

lemma foldl_store_balance:
  "foldl store_balance m (zip ks (map f ks)) k =
     (if k \<in> set ks \<and> success (f k) \<and> data (f k) \<noteq> None then data (f k) else m k)"
  by (induction ks arbitrary: m) (auto simp: store_balance_def)

lemma portfolio_loop_entries:
  "\<exists>tv es. portfolio_loop ops (Some bs) (Some ps) ks acc = Inr (tv, es) \<and>
     map entry_assetId es =
       map entry_assetId (snd acc) @ filter (\<lambda>k. bs k \<noteq> None \<and> ps k \<noteq> None) ks"
proof (induction ks arbitrary: acc)
  case Nil
  then show ?case by (cases acc) simp
next
  case (Cons k ks)
  show ?case
  proof (cases "bs k")
    case None
    with Cons[of acc] show ?thesis by simp
  next
    case (Some bal)
    show ?thesis
    proof (cases "ps k")
      case None
      with Some Cons[of acc] show ?thesis by simp
    next
      case (Some pr)
      let ?v = "num_times ops (num_parseFloat ops (balanceFormatted bal)) (price pr)"
      let ?acc = "(num_plus ops (fst acc) ?v,
                   snd acc @ [\<lparr>entry_assetId = k, entry_balance = balanceFormatted bal,
                     entry_price = price pr, entry_value = ?v,
                     entry_priceChange24h = priceChangePercentage24h pr\<rparr>])"
      from Cons[of ?acc] \<open>bs k = Some bal\<close> Some show ?thesis by (simp add: Let_def)
    qed
  qed
qed

lemma getPortfolioSummary_prices_fail:
  assumes "snd (getMultiplePrices P now assetIds cur) = Inr pr" and "\<not> success pr"
  shows "snd (getPortfolioSummary ops P now address assetIds cur) =
           Inr (service_error ''PORTFOLIO_SUMMARY_SERVICE_ERROR''
                  ''Failed to get portfolio summary'' now
                  (Error ''Failed to fetch portfolio data''))"
  using assms
  by (simp add: getPortfolioSummary_def getPortfolioSummary_try_def Let_def catch_error_def
      promise_all2_def getMultipleBalances_resolves)

lemma getPortfolioSummary_prices_ok:
  assumes "snd (getMultiplePrices P now assetIds cur) = Inr pr" and "success pr"
    and "data pr = Some prices"
  shows "\<exists>s. snd (getPortfolioSummary ops P now address assetIds cur) =
           Inr \<lparr>success = True, data = Some s, error = None, timestamp = now\<rparr> \<and>
           map entry_assetId (portfolio s) =
             filter (\<lambda>k. success (balance_envelope P now address k) \<and>
                         data (balance_envelope P now address k) \<noteq> None \<and>
                         prices k \<noteq> None) assetIds"
proof -
  let ?bs = "foldl store_balance Map.empty
               (zip assetIds (map (balance_envelope P now address) assetIds))"
  obtain tv es where
    l: "portfolio_loop ops (Some ?bs) (Some prices) assetIds (num_zero ops, []) = Inr (tv, es)"
    and e: "map entry_assetId es =
       map entry_assetId (snd (num_zero ops, [])) @
       filter (\<lambda>k. ?bs k \<noteq> None \<and> prices k \<noteq> None) assetIds"
    using portfolio_loop_entries[of ops ?bs prices assetIds "(num_zero ops, [])"] by auto
  have f: "filter (\<lambda>k. ?bs k \<noteq> None \<and> prices k \<noteq> None) assetIds =
           filter (\<lambda>k. success (balance_envelope P now address k) \<and>
                         data (balance_envelope P now address k) \<noteq> None \<and>
                         prices k \<noteq> None) assetIds"
    by (rule filter_cong) (auto simp: foldl_store_balance)
  have "snd (getPortfolioSummary ops P now address assetIds cur) =
          Inr \<lparr>success = True,
               data = Some \<lparr>totalValue = tv, summary_currency = cur, portfolio = es,
                            summary_timestamp = now\<rparr>,
               error = None, timestamp = now\<rparr>"
    using assms l
    by (simp add: getPortfolioSummary_def getPortfolioSummary_try_def Let_def catch_error_def
        promise_all2_def getMultipleBalances_resolves)
  with e f show ?thesis by simp
qed

text \<open>
  C5, as stated, fails. The Bitcoin balance request fails and the EVM balance request
  succeeds: \<open>getMultipleBalances\<close> resolves to a success envelope that holds the
  balance of \<open>ethereum\<close> alone, and \<open>getPortfolioSummary\<close> to a success envelope
  whose portfolio has the entry of \<open>ethereum\<close> alone.
\<close>

theorem partial_results_counterexample:
  "snd (getBalance example_providers 0 ''addr'' ''bitcoin'') = Inr example_failure \<and>
   success example_failure = False \<and>
   getMultipleBalances example_providers 0 ''addr'' [''bitcoin'', ''ethereum''] =
     ([Bitcoin_getBalance ''addr'', Alchemy_getBalance ''addr'' ''ethereum''],
      Inr \<lparr>success = True, data = Some example_balances, error = None, timestamp = 0\<rparr>) \<and>
   snd (getPortfolioSummary example_ops example_providers 0 ''addr''
          [''bitcoin'', ''ethereum''] ''usd'') =
     Inr \<lparr>success = True, data = Some example_summary, error = None, timestamp = 0\<rparr>"
proof -
  have b: "getBalance example_providers 0 ''addr'' ''bitcoin'' =
             ([Bitcoin_getBalance ''addr''], Inr example_failure)"
    by (simp add: getBalance_Inr[OF parse_bitcoin] balance_source_def example_providers_def)
  have e: "getBalance example_providers 0 ''addr'' ''ethereum'' =
             ([Alchemy_getBalance ''addr'' ''ethereum''],
              Inr \<lparr>success = True, data = Some example_balance, error = None,
                   timestamp = 0\<rparr>)"
    by (simp add: getBalance_Inr[OF parse_ethereum] balance_source_def example_providers_def)
  have m: "getMultipleBalances example_providers 0 ''addr'' [''bitcoin'', ''ethereum''] =
     ([Bitcoin_getBalance ''addr'', Alchemy_getBalance ''addr'' ''ethereum''],
      Inr \<lparr>success = True, data = Some example_balances, error = None, timestamp = 0\<rparr>)"
    by (simp add: getMultipleBalances_def getMultipleBalances_try_def Let_def b e
        catch_error_def store_balance_def example_failure_def example_balances_def)
  have p: "getMultiplePrices example_providers 0 [''bitcoin'', ''ethereum''] ''usd'' =
     ([CoinGecko_getMultiplePrices [''bitcoin'', ''ethereum''] ''usd''],
      Inr \<lparr>success = True, data = Some example_prices, error = None, timestamp = 0\<rparr>)"
    by (simp add: getMultiplePrices_def getMultiplePrices_try_def call_def catch_error_def
        example_providers_def)
  have s: "snd (getPortfolioSummary example_ops example_providers 0 ''addr''
          [''bitcoin'', ''ethereum''] ''usd'') =
     Inr \<lparr>success = True, data = Some example_summary, error = None, timestamp = 0\<rparr>"
    by (simp add: getPortfolioSummary_def getPortfolioSummary_try_def Let_def m p
        promise_all2_def catch_error_def example_balances_def example_prices_def
        example_balance_def example_price_def example_ops_def example_summary_def)
  from b m s show ?thesis by (simp add: example_failure_def)
qed

text \<open>
  C5 (amended). \<open>getMultipleBalances\<close> always resolves to a success envelope; its
  data holds, for each asset id of the request whose balance sub-call succeeded, the data
  of that sub-call, and nothing for the others. \<open>getPortfolioSummary\<close> resolves to
  the failure envelope of the operation when the prices sub-call resolves to a failure
  envelope; when the prices sub-call succeeds with data, it resolves to a success
  envelope whose portfolio lists, in order, the asset ids that have both a balance and a
  price, leaving out those whose balance sub-call failed. The asset ids are keys for
  which the maps model the result objects: none names a member of
  \<^verbatim>\<open>Object.prototype\<close>.
\<close>

theorem failed_balances_are_skipped:
  assumes "set assetIds \<inter> set objectPrototypeKeys = {}"
  shows
  "(\<exists>m. snd (getMultipleBalances P now address assetIds) =
          Inr \<lparr>success = True, data = Some m, error = None, timestamp = now\<rparr> \<and>
        (\<forall>k. m k = (if k \<in> set assetIds \<and> success (balance_envelope P now address k)
                     then data (balance_envelope P now address k) else None))) \<and>
   (\<forall>pr. snd (getMultiplePrices P now assetIds cur) = Inr pr \<longrightarrow> \<not> success pr \<longrightarrow>
      snd (getPortfolioSummary ops P now address assetIds cur) =
        Inr (service_error ''PORTFOLIO_SUMMARY_SERVICE_ERROR''
               ''Failed to get portfolio summary'' now
               (Error ''Failed to fetch portfolio data''))) \<and>
   (\<forall>pr prices. snd (getMultiplePrices P now assetIds cur) = Inr pr \<longrightarrow> success pr \<longrightarrow>
      data pr = Some prices \<longrightarrow>
      (\<exists>s. snd (getPortfolioSummary ops P now address assetIds cur) =
              Inr \<lparr>success = True, data = Some s, error = None, timestamp = now\<rparr> \<and>
            map entry_assetId (portfolio s) =
              filter (\<lambda>k. success (balance_envelope P now address k) \<and>
                          data (balance_envelope P now address k) \<noteq> None \<and>
                          prices k \<noteq> None) assetIds))"
proof -
  let ?m = "foldl store_balance Map.empty
              (zip assetIds (map (balance_envelope P now address) assetIds))"
  have "\<forall>k. ?m k = (if k \<in> set assetIds \<and> success (balance_envelope P now address k)
                     then data (balance_envelope P now address k) else None)"
    by (auto simp: foldl_store_balance)
  then have 1: "\<exists>m. snd (getMultipleBalances P now address assetIds) =
          Inr \<lparr>success = True, data = Some m, error = None, timestamp = now\<rparr> \<and>
        (\<forall>k. m k = (if k \<in> set assetIds \<and> success (balance_envelope P now address k)
                     then data (balance_envelope P now address k) else None))"
    using getMultipleBalances_resolves[of P now address assetIds] by blast
  show ?thesis
    using 1 getPortfolioSummary_prices_fail[of P now assetIds cur _ ops address]
      getPortfolioSummary_prices_ok[of P now assetIds cur _ _ ops address]
    by blast
qed

theorem failed_balances_are_skipped_witness:
  "snd (getMultiplePrices example_providers 0 [''bitcoin'', ''ethereum''] ''usd'') =
     Inr \<lparr>success = True, data = Some example_prices, error = None, timestamp = 0\<rparr> \<and>
   (\<exists>s. snd (getPortfolioSummary example_ops example_providers 0 ''addr''
              [''bitcoin'', ''ethereum''] ''usd'') =
           Inr \<lparr>success = True, data = Some s, error = None, timestamp = 0\<rparr> \<and>
         map entry_assetId (portfolio s) = [''ethereum''])"
proof -
  let ?pr = "\<lparr>success = True, data = Some example_prices, error = None, timestamp = 0\<rparr>"
  have p: "snd (getMultiplePrices example_providers 0 [''bitcoin'', ''ethereum''] ''usd'') =
     Inr ?pr"
    by (simp add: getMultiplePrices_resolves example_providers_def)
  have b: "balance_envelope example_providers 0 ''addr'' ''bitcoin'' = example_failure"
    by (simp add: balance_envelope_def parse_bitcoin balance_source_def example_providers_def)
  have e: "balance_envelope example_providers 0 ''addr'' ''ethereum'' =
             \<lparr>success = True, data = Some example_balance, error = None, timestamp = 0\<rparr>"
    by (simp add: balance_envelope_def parse_ethereum balance_source_def example_providers_def)
  have f: "filter (\<lambda>k. success (balance_envelope example_providers 0 ''addr'' k) \<and>
                       data (balance_envelope example_providers 0 ''addr'' k) \<noteq> None \<and>
                       example_prices k \<noteq> None) [''bitcoin'', ''ethereum''] = [''ethereum'']"
    by (simp add: b e example_failure_def example_prices_def)
  have k: "set [''bitcoin'', ''ethereum''] \<inter> set objectPrototypeKeys = {}"
    by (simp add: objectPrototypeKeys_def)
  from failed_balances_are_skipped[OF k, of example_providers 0 "''addr''" "''usd''"
      example_ops] p
  have "\<exists>s. snd (getPortfolioSummary example_ops example_providers 0 ''addr''
              [''bitcoin'', ''ethereum''] ''usd'') =
           Inr \<lparr>success = True, data = Some s, error = None, timestamp = 0\<rparr> \<and>
         map entry_assetId (portfolio s) =
           filter (\<lambda>k. success (balance_envelope example_providers 0 ''addr'' k) \<and>
                       data (balance_envelope example_providers 0 ''addr'' k) \<noteq> None \<and>
                       example_prices k \<noteq> None) [''bitcoin'', ''ethereum'']"
    by simp
  with f p show ?thesis by simp
qed


end
